theory Spec2Isabelle
  imports Complex_Main
begin

section \<open>Numbers, exceptions and arrays\<close>

text \<open>
  The notebook computes with IEEE doubles. The model computes with real numbers and
  does not model rounding or signed zeros. What it keeps of IEEE arithmetic is the
  result of a division by zero (an infinity or NaN, never an exception in numpy) and
  the rule that an ordering comparison with NaN is false, since both decide which
  events pass a cut and which rows \<open>dropna\<close> removes.
\<close>

datatype fval = Fin real | PosInf | NegInf | NaN

definition fdiv :: "real \<Rightarrow> real \<Rightarrow> fval" where
  "fdiv x y =
     (if y \<noteq> 0 then Fin (x / y)
      else if 0 < x then PosInf
      else if x < 0 then NegInf
      else NaN)"

fun fgt :: "fval \<Rightarrow> real \<Rightarrow> bool" where
  "fgt (Fin x) c = (c < x)"
| "fgt PosInf c = True"
| "fgt NegInf c = False"
| "fgt NaN c = False"

fun flt :: "fval \<Rightarrow> real \<Rightarrow> bool" where
  "flt (Fin x) c = (x < c)"
| "flt PosInf c = False"
| "flt NegInf c = True"
| "flt NaN c = False"

fun isna :: "fval \<Rightarrow> bool" where
  "isna NaN = True"
| "isna _ = False"

text \<open>Every exception the modelled code can raise is a value.\<close>

datatype exn =
    IndexError
  | AttributeError string
  | FileNotFoundError string
  | KeyInFileError string
  | KeyError string
  | DeserializationError
  | ValueError string
  | NameError string

fun then_do :: "exn + 'a \<Rightarrow> ('a \<Rightarrow> exn + 'b) \<Rightarrow> exn + 'b" where
  "then_do (Inl x) f = Inl x"
| "then_do (Inr a) f = f a"

section \<open>Events\<close>

text \<open>
  \<open>events\<close> is an awkward record array: \<open>field_names\<close> are the branches that were read,
  \<open>rows\<close> the entries. Each photon branch holds one variable-length list per event;
  the weight branch holds either one number per event or one list per event.
\<close>

datatype weight = Scalar real | Sequence "real list"

record event =
  photon_pt :: "real list"
  photon_eta :: "real list"
  photon_phi :: "real list"
  photon_e :: "real list"
  photon_isTightID :: "bool list"
  photon_ptcone20 :: "real list"
  mcEventWeight :: weight

record events =
  field_names :: "string list"
  rows :: "event list"

text \<open>\<open>events.name\<close>: the column of a field, AttributeError when it was not read.\<close>

definition get_field :: "string \<Rightarrow> (event \<Rightarrow> 'a) \<Rightarrow> events \<Rightarrow> exn + 'a list" where
  "get_field name sel evs =
     (if name \<in> set (field_names evs) then Inr (map sel (rows evs))
      else Inl (AttributeError name))"

text \<open>\<open>col[:, i]\<close> on a jagged column: IndexError when some event has no entry \<open>i\<close>.\<close>

definition idx :: "nat \<Rightarrow> 'a list list \<Rightarrow> exn + 'a list" where
  "idx i col =
     (if list_all (\<lambda>xs. i < length xs) col then Inr (map (\<lambda>xs. xs ! i) col)
      else Inl IndexError)"

text \<open>\<open>events[mask]\<close>: the rows whose mask entry is true, fields unchanged.\<close>

definition select :: "events \<Rightarrow> bool list \<Rightarrow> events" where
  "select evs msk = evs\<lparr>rows := map fst (filter snd (zip (rows evs) msk))\<rparr>"

section \<open>Four-vectors\<close>

text \<open>
  \<open>vector.zip\<close> builds one momentum per photon from the \<open>pt\<close>, \<open>eta\<close>, \<open>phi\<close> and
  \<open>e\<close> columns, which must have the same list lengths event by event. The sum of two
  momenta is Cartesian; its \<open>mass\<close> carries the sign of \<open>t\<^sup>2 - x\<^sup>2 - y\<^sup>2 - z\<^sup>2\<close>.
\<close>

datatype p4 = PtEtaPhiE real real real real

datatype xyzt = XYZT real real real real

fun to_xyzt :: "p4 \<Rightarrow> xyzt" where
  "to_xyzt (PtEtaPhiE pt eta phi en) = XYZT (pt * cos phi) (pt * sin phi) (pt * sinh eta) en"

fun add4 :: "p4 \<Rightarrow> p4 \<Rightarrow> xyzt" where
  "add4 a b =
     (case (to_xyzt a, to_xyzt b) of
        (XYZT x1 y1 z1 t1, XYZT x2 y2 z2 t2) \<Rightarrow> XYZT (x1 + x2) (y1 + y2) (z1 + z2) (t1 + t2))"

fun tau2 :: "xyzt \<Rightarrow> real" where
  "tau2 (XYZT x y z t) = t\<^sup>2 - x\<^sup>2 - y\<^sup>2 - z\<^sup>2"

definition mass :: "xyzt \<Rightarrow> real" where
  "mass v = (if tau2 v < 0 then - sqrt \<bar>tau2 v\<bar> else sqrt \<bar>tau2 v\<bar>)"

fun pt_of :: "xyzt \<Rightarrow> real" where
  "pt_of (XYZT x y z t) = sqrt (x\<^sup>2 + y\<^sup>2)"

definition zip4 :: "event \<Rightarrow> exn + p4 list" where
  "zip4 ev =
     (if length (photon_eta ev) = length (photon_pt ev)
         \<and> length (photon_phi ev) = length (photon_pt ev)
         \<and> length (photon_e ev) = length (photon_pt ev)
      then Inr (map (\<lambda>i. PtEtaPhiE (photon_pt ev ! i) (photon_eta ev ! i)
                                   (photon_phi ev ! i) (photon_e ev ! i))
                    [0..<length (photon_pt ev)])
      else Inl (ValueError ''cannot broadcast nested list''))"

fun collect :: "(exn + 'a) list \<Rightarrow> exn + 'a list" where
  "collect [] = Inr []"
| "collect (r # rs) = then_do r (\<lambda>a. then_do (collect rs) (\<lambda>as. Inr (a # as)))"

definition vector_zip :: "events \<Rightarrow> exn + p4 list list" where
  "vector_zip evs =
     then_do (get_field ''photon_pt'' photon_pt evs) (\<lambda>_.
     then_do (get_field ''photon_eta'' photon_eta evs) (\<lambda>_.
     then_do (get_field ''photon_phi'' photon_phi evs) (\<lambda>_.
     then_do (get_field ''photon_e'' photon_e evs) (\<lambda>_.
       collect (map zip4 (rows evs))))))"

definition diphoton :: "events \<Rightarrow> exn + xyzt list" where
  "diphoton evs =
     then_do (vector_zip evs) (\<lambda>p4_photons.
     then_do (idx 0 p4_photons) (\<lambda>a.
     then_do (idx 1 p4_photons) (\<lambda>b. Inr (map2 add4 a b))))"

section \<open>The cut sequence of \<open>load_and_preprocess_mc_for_mva\<close>\<close>

text \<open>Each cut computes a boolean mask over the current batch.\<close>

definition n_photons_cut :: "events \<Rightarrow> exn + bool list" where
  "n_photons_cut evs =
     then_do (get_field ''photon_pt'' photon_pt evs) (\<lambda>pt.
       Inr (map (\<lambda>xs. 2 \<le> length xs) pt))"

definition tight_id_cut :: "events \<Rightarrow> exn + bool list" where
  "tight_id_cut evs =
     then_do (get_field ''photon_isTightID'' photon_isTightID evs) (\<lambda>tight.
     then_do (idx 0 tight) (\<lambda>t0.
     then_do (idx 1 tight) (\<lambda>t1.
       Inr (map2 (\<lambda>a b. a = True \<and> b = True) t0 t1))))"

definition pt_cut :: "events \<Rightarrow> exn + bool list" where
  "pt_cut evs =
     then_do (get_field ''photon_pt'' photon_pt evs) (\<lambda>pt.
     then_do (idx 0 pt) (\<lambda>pt0.
     then_do (idx 1 pt) (\<lambda>pt1.
       Inr (map2 (\<lambda>a b. 50 < a \<and> 30 < b) pt0 pt1))))"

definition iso_cut :: "events \<Rightarrow> exn + bool list" where
  "iso_cut evs =
     then_do (get_field ''photon_ptcone20'' photon_ptcone20 evs) (\<lambda>cone.
     then_do (idx 0 cone) (\<lambda>c0.
     then_do (get_field ''photon_pt'' photon_pt evs) (\<lambda>pt.
     then_do (idx 0 pt) (\<lambda>pt0.
     then_do (idx 1 cone) (\<lambda>c1.
     then_do (idx 1 pt) (\<lambda>pt1.
       Inr (map2 (\<lambda>a b. a \<and> b)
              (map2 (\<lambda>c p. flt (fdiv c p) 0.055) c0 pt0)
              (map2 (\<lambda>c p. flt (fdiv c p) 0.055) c1 pt1))))))))"

definition eta_cut_ph0 :: "events \<Rightarrow> exn + bool list" where
  "eta_cut_ph0 evs =
     then_do (get_field ''photon_eta'' photon_eta evs) (\<lambda>eta.
     then_do (idx 0 eta) (\<lambda>eta0.
       Inr (map (\<lambda>x. \<not> (1.37 < \<bar>x\<bar> \<and> \<bar>x\<bar> < 1.52)) eta0)))"

definition eta_cut_ph1 :: "events \<Rightarrow> exn + bool list" where
  "eta_cut_ph1 evs =
     then_do (get_field ''photon_eta'' photon_eta evs) (\<lambda>eta.
     then_do (idx 1 eta) (\<lambda>eta1.
       Inr (map (\<lambda>x. \<not> (1.37 < \<bar>x\<bar> \<and> \<bar>x\<bar> < 1.52)) eta1)))"

definition eta_cut :: "events \<Rightarrow> exn + bool list" where
  "eta_cut evs =
     then_do (eta_cut_ph0 evs) (\<lambda>m0.
     then_do (eta_cut_ph1 evs) (\<lambda>m1.
       Inr (map2 (\<lambda>a b. a \<and> b) m0 m1)))"

definition mass_iso_cut :: "events \<Rightarrow> exn + bool list" where
  "mass_iso_cut evs =
     then_do (diphoton evs) (\<lambda>dip.
     then_do (get_field ''photon_pt'' photon_pt evs) (\<lambda>pt.
     then_do (idx 0 pt) (\<lambda>pt0.
     then_do (idx 1 pt) (\<lambda>pt1.
       Inr (map2 (\<lambda>a b. a \<and> b)
              (map2 (\<lambda>p v. fgt (fdiv p (mass v)) 0.35) pt0 dip)
              (map2 (\<lambda>p v. fgt (fdiv p (mass v)) 0.35) pt1 dip))))))"

text \<open>
  One cut step: compute the mask on the current batch and keep the selected rows.
  The loop body leaves the file (\<open>continue\<close>) as soon as a batch is empty; here the
  empty batch is returned at once, without evaluating the remaining cuts, and the
  caller skips the file when the batch it gets back is empty.
\<close>

definition apply_cut :: "(events \<Rightarrow> exn + bool list) \<Rightarrow> events \<Rightarrow> exn + events" where
  "apply_cut c evs = then_do (c evs) (\<lambda>msk. Inr (select evs msk))"

definition preselect :: "events \<Rightarrow> exn + events" where
  "preselect evs0 =
     then_do (apply_cut n_photons_cut evs0) (\<lambda>evs1.
     if rows evs1 = [] then Inr evs1 else
     then_do (apply_cut tight_id_cut evs1) (\<lambda>evs2.
     if rows evs2 = [] then Inr evs2 else
     then_do (apply_cut pt_cut evs2) (\<lambda>evs3.
     if rows evs3 = [] then Inr evs3 else
     then_do (apply_cut iso_cut evs3) (\<lambda>evs4.
     if rows evs4 = [] then Inr evs4 else
     then_do (apply_cut eta_cut evs4) (\<lambda>evs5.
     if rows evs5 = [] then Inr evs5 else
       apply_cut mass_iso_cut evs5)))))"

section \<open>Feature engineering\<close>

text \<open>\<open>np.mod\<close> takes the sign of the divisor; the divisor here is \<open>2 * pi\<close>.\<close>

definition np_mod :: "real \<Rightarrow> real \<Rightarrow> real" where
  "np_mod a b = a - b * of_int \<lfloor>a / b\<rfloor>"

definition delta_phi_yy :: "real \<Rightarrow> real \<Rightarrow> real" where
  "delta_phi_yy ph1_phi ph2_phi = \<bar>np_mod (ph1_phi - ph2_phi + pi) (2 * pi) - pi\<bar>"

definition delta_eta_yy :: "real \<Rightarrow> real \<Rightarrow> real" where
  "delta_eta_yy ph1_eta ph2_eta = \<bar>ph1_eta - ph2_eta\<bar>"

definition delta_R_yy :: "real \<Rightarrow> real \<Rightarrow> real" where
  "delta_R_yy d_eta d_phi = sqrt (d_eta\<^sup>2 + d_phi\<^sup>2)"

definition cos_theta_cs_yy :: "real \<Rightarrow> real \<Rightarrow> real" where
  "cos_theta_cs_yy ph1_eta ph2_eta = \<bar>tanh (0.5 * (ph1_eta - ph2_eta))\<bar>"

subsection \<open>Event weights\<close>

text \<open>
  The weight column has one dimension when every event carries a number and two when
  events carry lists. The guard of the reduction to the first element reads
  \<open>event_weights.type.content.length\<close>: the type of a two-dimensional awkward array
  is an array type whose content is a list type, and a list type (variable-length or
  regular) has no attribute \<open>length\<close>, so evaluating the guard raises AttributeError.
\<close>

fun is_sequence :: "weight \<Rightarrow> bool" where
  "is_sequence (Sequence ws) = True"
| "is_sequence (Scalar w) = False"

definition ndim :: "weight list \<Rightarrow> nat" where
  "ndim col = (if list_ex is_sequence col then 2 else 1)"

definition type_content_length :: "weight list \<Rightarrow> exn + nat" where
  "type_content_length col = Inl (AttributeError ''length'')"

fun first_element :: "weight \<Rightarrow> exn + weight" where
  "first_element (Sequence (w # ws)) = Inr (Scalar w)"
| "first_element (Sequence []) = Inl IndexError"
| "first_element (Scalar w) = Inl IndexError"

definition event_weights :: "events \<Rightarrow> real list \<Rightarrow> exn + weight list" where
  "event_weights evs ph1_pt =
     (let w = (if ''mcEventWeight'' \<in> set (field_names evs) then map mcEventWeight (rows evs)
               else map (\<lambda>p. Scalar 1) ph1_pt)
      in if 1 < ndim w then
           then_do (type_content_length w) (\<lambda>n.
             if 0 < n then collect (map first_element w) else Inr w)
         else Inr w)"

text \<open>\<open>ak.to_numpy\<close> followed by the use as a DataFrame column: one number per row.\<close>

fun weight_value :: "weight \<Rightarrow> exn + fval" where
  "weight_value (Scalar w) = Inr (Fin w)"
| "weight_value (Sequence ws) = Inl (ValueError ''Per-column arrays must each be 1-dimensional'')"

subsection \<open>Tables\<close>

record dataframe =
  columns :: "string list"
  df_rows :: "fval list list"

definition empty_frame :: dataframe where
  "empty_frame = \<lparr>columns = [], df_rows = []\<rparr>"

definition df_empty :: "dataframe \<Rightarrow> bool" where
  "df_empty df = (columns df = [] \<or> df_rows df = [])"

text \<open>\<open>pd.DataFrame(df_dict)\<close>: the dictionary's arrays, all of one length, as columns.\<close>

definition DataFrame :: "(string \<times> fval list) list \<Rightarrow> dataframe" where
  "DataFrame d =
     \<lparr>columns = map fst d,
      df_rows = map (\<lambda>i. map (\<lambda>c. snd c ! i) d) [0..<length (snd (hd d))]\<rparr>"

text \<open>
  \<open>pd.concat(.., ignore_index=True)\<close>. Every frame concatenated by the notebook was
  built from the same dictionary keys, so the rows are appended under those columns.
\<close>

definition pd_concat :: "dataframe list \<Rightarrow> dataframe" where
  "pd_concat dfs = \<lparr>columns = columns (hd dfs), df_rows = concat (map df_rows dfs)\<rparr>"

definition dropna :: "dataframe \<Rightarrow> dataframe" where
  "dropna df = df\<lparr>df_rows := filter (\<lambda>r. \<not> list_ex isna r) (df_rows df)\<rparr>"

fun index_of :: "string \<Rightarrow> string list \<Rightarrow> nat option" where
  "index_of c [] = None"
| "index_of c (x # xs) = (if c = x then Some 0 else map_option Suc (index_of c xs))"

text \<open>\<open>df[name]\<close> and \<open>df[names]\<close>: KeyError on a name that is not a column.\<close>

definition get_column :: "string \<Rightarrow> dataframe \<Rightarrow> exn + fval list" where
  "get_column c df =
     (case index_of c (columns df) of
        None \<Rightarrow> Inl (KeyError c)
      | Some j \<Rightarrow> Inr (map (\<lambda>r. r ! j) (df_rows df)))"

definition get_columns :: "string list \<Rightarrow> dataframe \<Rightarrow> exn + dataframe" where
  "get_columns cs df =
     then_do (collect (map (\<lambda>c. case index_of c (columns df) of
                                   None \<Rightarrow> Inl (KeyError c) | Some j \<Rightarrow> Inr j) cs))
       (\<lambda>js. Inr \<lparr>columns = cs, df_rows = map (\<lambda>r. map (\<lambda>j. r ! j) js) (df_rows df)\<rparr>)"

subsection \<open>The feature dictionary of one batch\<close>

definition features :: "real \<Rightarrow> events \<Rightarrow> exn + (string \<times> fval list) list" where
  "features is_signal_flag evs =
     then_do (diphoton evs) (\<lambda>diphoton_final.
     then_do (get_field ''photon_pt'' photon_pt evs) (\<lambda>pt.
     then_do (idx 0 pt) (\<lambda>ph1_pt.
     then_do (idx 1 pt) (\<lambda>ph2_pt.
     then_do (get_field ''photon_eta'' photon_eta evs) (\<lambda>eta.
     then_do (idx 0 eta) (\<lambda>ph1_eta.
     then_do (idx 1 eta) (\<lambda>ph2_eta.
     then_do (get_field ''photon_phi'' photon_phi evs) (\<lambda>phi.
     then_do (idx 0 phi) (\<lambda>ph1_phi.
     then_do (idx 1 phi) (\<lambda>ph2_phi.
     then_do (get_field ''photon_e'' photon_e evs) (\<lambda>en.
     then_do (idx 0 en) (\<lambda>ph1_e.
     then_do (idx 1 en) (\<lambda>ph2_e.
     then_do (get_field ''photon_ptcone20'' photon_ptcone20 evs) (\<lambda>cone.
     then_do (idx 0 cone) (\<lambda>ph1_ptcone20.
     then_do (idx 1 cone) (\<lambda>ph2_ptcone20.
     then_do (event_weights evs ph1_pt) (\<lambda>w.
     then_do (collect (map weight_value w)) (\<lambda>eventWeight.
       let m_yy_final = map mass diphoton_final;
           pt_yy_final = map pt_of diphoton_final;
           d_eta = map2 delta_eta_yy ph1_eta ph2_eta;
           d_phi = map2 delta_phi_yy ph1_phi ph2_phi
       in Inr
         [(''ph1_pt_norm'', map2 fdiv ph1_pt m_yy_final),
          (''ph2_pt_norm'', map2 fdiv ph2_pt m_yy_final),
          (''ph1_eta'', map Fin ph1_eta),
          (''ph2_eta'', map Fin ph2_eta),
          (''delta_eta_yy'', map Fin d_eta),
          (''delta_phi_yy'', map Fin d_phi),
          (''delta_R_yy'', map Fin (map2 delta_R_yy d_eta d_phi)),
          (''ph1_ptcone20_norm'', map2 fdiv ph1_ptcone20 ph1_pt),
          (''ph2_ptcone20_norm'', map2 fdiv ph2_ptcone20 ph2_pt),
          (''cos_theta_cs_yy'', map Fin (map2 cos_theta_cs_yy ph1_eta ph2_eta)),
          (''m_yy'', map Fin m_yy_final),
          (''pt_yy'', map Fin pt_yy_final),
          (''eventWeight'', eventWeight),
          (''isSignal'', map (\<lambda>p. Fin is_signal_flag) ph1_pt)]))))))))))))))))))"

text \<open>
  The body of the file loop after a successful, non-empty read: the cuts, then the
  features of the survivors. \<open>None\<close> is the \<open>continue\<close> of a batch that became empty.
\<close>

definition process_events :: "real \<Rightarrow> events \<Rightarrow> exn + dataframe option" where
  "process_events is_signal_flag evs0 =
     then_do (preselect evs0) (\<lambda>evs.
       if rows evs = [] then Inr None
       else then_do (features is_signal_flag evs) (\<lambda>df_dict. Inr (Some (DataFrame df_dict))))"

section \<open>Reading files\<close>

text \<open>
  A ROOT file holds named trees; a tree stores the branches listed in \<open>branch_names\<close>
  (an event's component for a branch that is not listed is not stored and never read).
  \<open>uproot.open(path + ":" + tree)\<close> raises on a missing file, a file that is not a
  ROOT file and a missing tree; \<open>tree.arrays(branches, library="ak")\<close> raises on a
  requested branch the tree does not have, and otherwise returns a record array whose
  fields are the requested branches.
\<close>

record tree =
  branch_names :: "string list"
  entries :: "event list"

datatype root_file = NotRoot | RootFile "string \<Rightarrow> tree option"

type_synonym filesystem = "string \<Rightarrow> root_file option"

definition uproot_open :: "filesystem \<Rightarrow> string \<Rightarrow> string \<Rightarrow> exn + tree" where
  "uproot_open fs file_path tree_name_param =
     (case fs file_path of
        None \<Rightarrow> Inl (FileNotFoundError file_path)
      | Some NotRoot \<Rightarrow> Inl DeserializationError
      | Some (RootFile trees) \<Rightarrow>
          (case trees tree_name_param of
             None \<Rightarrow> Inl (KeyInFileError tree_name_param)
           | Some t \<Rightarrow> Inr t))"

definition tree_arrays :: "tree \<Rightarrow> string list \<Rightarrow> exn + events" where
  "tree_arrays t branches_param =
     (case filter (\<lambda>b. b \<notin> set (branch_names t)) branches_param of
        [] \<Rightarrow> Inr \<lparr>field_names = branches_param, rows = entries t\<rparr>
      | b # bs \<Rightarrow> Inl (KeyInFileError b))"

definition read_events :: "filesystem \<Rightarrow> string \<Rightarrow> string \<Rightarrow> string list \<Rightarrow> exn + events" where
  "read_events fs file_path tree_name_param branches_param =
     then_do (uproot_open fs file_path tree_name_param) (\<lambda>t. tree_arrays t branches_param)"

section \<open>The loading function\<close>

datatype message =
    NoFilesFound string
  | ProcessingFiles nat string
  | ErrorReadingFile string exn
  | NoEventsIn string
  | FinishedProcessing nat
  | LoadedSignal nat
  | LoadedBackground nat
  | CombinedShape nat
  | WarningBackgroundEmpty
  | WarningSignalEmpty
  | ErrorBothEmpty
  | ErrorMissingFeatures "string list"
  | AvailableColumns "string list"
  | FeaturesDefined
  | CannotDefineXy
  | TrainingSetSize nat
  | TestSetSize nat
  | FeaturesScaled
  | SkippingSplit
  | TrainingModel
  | TrainingComplete
  | ModelAccuracy
  | SkippingTraining
  | EvaluationReport
  | SkippingEvaluation
  | ModelSaved string
  | ScalerSaved string
  | SkippingSaving

text \<open>
  The \<open>for\<close> loop over the matched files. The \<open>try\<close> block covers the read only: an
  exception of the read is printed and the file skipped, an exception of the cuts or
  of the feature computation leaves the function.
\<close>

fun load_files ::
  "filesystem \<Rightarrow> string \<Rightarrow> string list \<Rightarrow> real \<Rightarrow> string list
     \<Rightarrow> exn + (message list \<times> dataframe list)" where
  "load_files fs tree_name_param branches_param is_signal_flag [] = Inr ([], [])"
| "load_files fs tree_name_param branches_param is_signal_flag (file_path # rest) =
     (case read_events fs file_path tree_name_param branches_param of
        Inl ex \<Rightarrow>
          then_do (load_files fs tree_name_param branches_param is_signal_flag rest)
            (\<lambda>(out, df_list). Inr (ErrorReadingFile file_path ex # out, df_list))
      | Inr evs \<Rightarrow>
          if rows evs = [] then
            then_do (load_files fs tree_name_param branches_param is_signal_flag rest)
              (\<lambda>(out, df_list). Inr (NoEventsIn file_path # out, df_list))
          else
            then_do (process_events is_signal_flag evs) (\<lambda>r.
            then_do (load_files fs tree_name_param branches_param is_signal_flag rest)
              (\<lambda>(out, df_list).
                 Inr (out, (case r of None \<Rightarrow> df_list | Some df \<Rightarrow> df # df_list)))))"

text \<open>
  What the run depends on from outside: the files, what \<open>glob.glob\<close> matches, and the
  three seeded library calls. \<open>sample_order n\<close> is the row order of
  \<open>sample(frac=1, random_state=42)\<close> on \<open>n\<close> rows. \<open>train_test_split\<close> with a fixed
  test size and seed chooses the train and test row positions from the number of rows
  and the stratification labels, and can raise. \<open>MLPClassifier_fit\<close> is the fit of
  the configured classifier.
\<close>

record 'm env =
  notebook_base_dir :: string
  glob :: "string \<Rightarrow> string list"
  fs :: filesystem
  sample_order :: "nat \<Rightarrow> nat list"
  train_test_split :: "nat \<Rightarrow> fval list option \<Rightarrow> exn + (nat list \<times> nat list)"
  MLPClassifier_fit :: "real list list \<Rightarrow> fval list \<Rightarrow> exn + 'm"

definition load_and_preprocess_mc_for_mva ::
  "'m env \<Rightarrow> string \<Rightarrow> real \<Rightarrow> string \<Rightarrow> string list \<Rightarrow> exn + (message list \<times> dataframe)" where
  "load_and_preprocess_mc_for_mva env file_paths_pattern is_signal_flag tree_name_param
       branches_param =
     (let all_files = glob env file_paths_pattern in
      if all_files = [] then Inr ([NoFilesFound file_paths_pattern], empty_frame)
      else
        then_do (load_files (fs env) tree_name_param branches_param is_signal_flag all_files)
          (\<lambda>(out, df_list).
             if df_list = [] then
               Inr (ProcessingFiles (length all_files) file_paths_pattern # out, empty_frame)
             else
               let final_df = dropna (pd_concat df_list) in
               Inr (ProcessingFiles (length all_files) file_paths_pattern # out
                      @ [FinishedProcessing (length (df_rows final_df))], final_df)))"

section \<open>Configuration\<close>

definition data_dir :: "'m env \<Rightarrow> string" where
  "data_dir env = notebook_base_dir env @ ''/data''"

definition mc_signal_hyy_file_pattern :: "'m env \<Rightarrow> string" where
  "mc_signal_hyy_file_pattern env = data_dir env @ ''/DAOD_PHYSLITE.38191712.*.pool.root.1''"

definition mc_background_hyy_file_pattern :: "'m env \<Rightarrow> string" where
  "mc_background_hyy_file_pattern env =
     data_dir env @ ''/DAOD_PHYSLITE.37110937._000011.pool.root.1''"

definition tree_name :: string where
  "tree_name = ''analysis''"

definition mva_model_path :: "'m env \<Rightarrow> string" where
  "mva_model_path env = notebook_base_dir env @ ''/hyy_mva_model.pkl''"

definition mva_scaler_path :: "'m env \<Rightarrow> string" where
  "mva_scaler_path env = notebook_base_dir env @ ''/hyy_mva_scaler.pkl''"

definition branches_to_read_mc :: "string list" where
  "branches_to_read_mc =
     [''photon_pt'', ''photon_eta'', ''photon_phi'', ''photon_e'',
      ''photon_isTightID'', ''photon_ptcone20'', ''mcEventWeight'']"

definition mva_features_list :: "string list" where
  "mva_features_list =
     [''ph1_pt_norm'', ''ph2_pt_norm'', ''ph1_eta'', ''ph2_eta'',
      ''delta_eta_yy'', ''delta_phi_yy'', ''delta_R_yy'',
      ''ph1_ptcone20_norm'', ''ph2_ptcone20_norm'', ''cos_theta_cs_yy'']"

section \<open>Standardization\<close>

text \<open>
  \<open>StandardScaler\<close>: per column the mean and the population standard deviation of the
  rows it is fitted on, a zero deviation replaced by one. Fitting and transforming
  reject an array with no rows and an array holding NaN or an infinity.
\<close>

record StandardScaler =
  scaler_mean :: "real list"
  scaler_scale :: "real list"

fun finite_value :: "fval \<Rightarrow> exn + real" where
  "finite_value (Fin x) = Inr x"
| "finite_value v = Inl (ValueError ''Input contains NaN or infinity'')"

definition check_array :: "fval list list \<Rightarrow> exn + real list list" where
  "check_array A =
     (if A = [] then Inl (ValueError ''Found array with 0 sample(s)'')
      else collect (map (\<lambda>r. collect (map finite_value r)) A))"

definition mean :: "real list \<Rightarrow> real" where
  "mean xs = sum_list xs / real (length xs)"

definition variance :: "real list \<Rightarrow> real" where
  "variance xs = sum_list (map (\<lambda>x. (x - mean xs)\<^sup>2) xs) / real (length xs)"

definition handle_zeros_in_scale :: "real \<Rightarrow> real" where
  "handle_zeros_in_scale sd = (if sd = 0 then 1 else sd)"

definition scaler_fit :: "fval list list \<Rightarrow> exn + StandardScaler" where
  "scaler_fit A0 =
     then_do (check_array A0) (\<lambda>A.
       let cols = map (\<lambda>j. map (\<lambda>r. r ! j) A) [0..<length (hd A)]
       in Inr \<lparr>scaler_mean = map mean cols,
               scaler_scale = map (\<lambda>c. handle_zeros_in_scale (sqrt (variance c))) cols\<rparr>)"

definition scaler_transform :: "StandardScaler \<Rightarrow> fval list list \<Rightarrow> exn + real list list" where
  "scaler_transform sc A0 =
     then_do (check_array A0) (\<lambda>A.
       Inr (map (\<lambda>r. map (\<lambda>(x, m, sd). (x - m) / sd) (zip r (zip (scaler_mean sc) (scaler_scale sc)))) A))"

section \<open>The notebook\<close>

text \<open>
  The variables of the notebook, the artifacts written by \<open>joblib.dump\<close> and the
  printed lines. \<open>scaler\<close> is \<open>None\<close> while the name is unbound: only the branch of the
  split cell that splits binds it. \<open>mlp_model\<close> is \<open>None\<close> for the Python \<open>None\<close>.
  \<open>printed\<close> holds the lines that report a size, a condition or a skip; the dumps of
  column lists and table heads are left out, and so is the optional cell that plots
  the feature distributions, which assigns nothing.
\<close>

datatype 'm artifact = Model 'm | Scaler StandardScaler

record 'm notebook =
  df_signal_mc :: dataframe
  df_background_mc :: dataframe
  df_combined_mc :: dataframe
  X_df :: dataframe
  y_series :: "fval list"
  weights_series :: "fval list"
  X_train_scaled :: "real list list"
  X_test_scaled :: "real list list"
  y_train :: "fval list"
  y_test :: "fval list"
  w_train :: "fval list"
  w_test :: "fval list"
  scaler :: "StandardScaler option"
  mlp_model :: "'m option"
  saved :: "(string \<times> 'm artifact) list"
  printed :: "message list"

definition fresh_kernel :: "'m notebook" where
  "fresh_kernel =
     \<lparr>df_signal_mc = empty_frame, df_background_mc = empty_frame,
      df_combined_mc = empty_frame, X_df = empty_frame, y_series = [], weights_series = [],
      X_train_scaled = [], X_test_scaled = [], y_train = [], y_test = [],
      w_train = [], w_test = [], scaler = None, mlp_model = None, saved = [], printed = []\<rparr>"

definition print :: "message list \<Rightarrow> 'm notebook \<Rightarrow> 'm notebook" where
  "print ms nb = nb\<lparr>printed := printed nb @ ms\<rparr>"

definition take_rows :: "nat list \<Rightarrow> 'a list \<Rightarrow> 'a list" where
  "take_rows positions xs = map (\<lambda>i. xs ! i) positions"

definition sample_frac1 :: "'m env \<Rightarrow> dataframe \<Rightarrow> dataframe" where
  "sample_frac1 env df =
     df\<lparr>df_rows := take_rows (sample_order env (length (df_rows df))) (df_rows df)\<rparr>"

subsection \<open>Cell 4: load and combine\<close>

definition combine :: "'m env \<Rightarrow> 'm notebook \<Rightarrow> 'm notebook" where
  "combine env nb =
     (if \<not> df_empty (df_signal_mc nb) \<and> \<not> df_empty (df_background_mc nb) then
        (let df = pd_concat [df_signal_mc nb, df_background_mc nb]
         in print [CombinedShape (length (df_rows df))]
              (nb\<lparr>df_combined_mc := sample_frac1 env df\<rparr>))
      else if \<not> df_empty (df_signal_mc nb) then
        print [WarningBackgroundEmpty] (nb\<lparr>df_combined_mc := df_signal_mc nb\<rparr>)
      else if \<not> df_empty (df_background_mc nb) then
        print [WarningSignalEmpty] (nb\<lparr>df_combined_mc := df_background_mc nb\<rparr>)
      else
        print [ErrorBothEmpty] (nb\<lparr>df_combined_mc := empty_frame\<rparr>))"

definition cell_load :: "'m env \<Rightarrow> 'm notebook \<Rightarrow> exn + 'm notebook" where
  "cell_load env nb =
     then_do (load_and_preprocess_mc_for_mva env (mc_signal_hyy_file_pattern env) 1
                tree_name branches_to_read_mc) (\<lambda>(out_s, df_s).
     then_do (load_and_preprocess_mc_for_mva env (mc_background_hyy_file_pattern env) 0
                tree_name branches_to_read_mc) (\<lambda>(out_b, df_b).
       Inr (combine env
              (print (out_s @ [LoadedSignal (length (df_rows df_s))]
                      @ out_b @ [LoadedBackground (length (df_rows df_b))])
                 (nb\<lparr>df_signal_mc := df_s, df_background_mc := df_b\<rparr>)))))"

subsection \<open>Cell 5: features and target\<close>

definition missing_features :: "dataframe \<Rightarrow> string list" where
  "missing_features df = filter (\<lambda>f. f \<notin> set (columns df)) mva_features_list"

definition cell_define_X_y :: "'m notebook \<Rightarrow> exn + 'm notebook" where
  "cell_define_X_y nb =
     (if \<not> df_empty (df_combined_mc nb) then
        (if missing_features (df_combined_mc nb) \<noteq> [] then
           Inr (print [ErrorMissingFeatures (missing_features (df_combined_mc nb)),
                       AvailableColumns (columns (df_combined_mc nb))]
                  (nb\<lparr>X_df := empty_frame, y_series := [], weights_series := []\<rparr>))
         else
           then_do (get_columns mva_features_list (df_combined_mc nb)) (\<lambda>X.
           then_do (get_column ''isSignal'' (df_combined_mc nb)) (\<lambda>y.
           then_do (get_column ''eventWeight'' (df_combined_mc nb)) (\<lambda>weights.
             Inr (print [FeaturesDefined]
                    (nb\<lparr>X_df := X, y_series := y, weights_series := weights\<rparr>))))))
      else
        Inr (print [CannotDefineXy]
               (nb\<lparr>X_df := empty_frame, y_series := [], weights_series := []\<rparr>)))"

subsection \<open>Cell 6: split and scale\<close>

definition nunique :: "fval list \<Rightarrow> nat" where
  "nunique ser = length (remdups (filter (\<lambda>v. \<not> isna v) ser))"

definition stratify :: "fval list \<Rightarrow> fval list option" where
  "stratify y = (if 1 < nunique y then Some y else None)"

definition cell_split_scale :: "'m env \<Rightarrow> 'm notebook \<Rightarrow> exn + 'm notebook" where
  "cell_split_scale env nb =
     (if \<not> df_empty (X_df nb) then
        then_do (train_test_split env (length (df_rows (X_df nb))) (stratify (y_series nb)))
          (\<lambda>(train, test).
             let X_train = take_rows train (df_rows (X_df nb));
                 X_test = take_rows test (df_rows (X_df nb))
             in
             then_do (scaler_fit X_train) (\<lambda>sc.
             then_do (scaler_transform sc X_train) (\<lambda>train_scaled.
             then_do (scaler_transform sc X_test) (\<lambda>test_scaled.
               Inr (print [TrainingSetSize (length X_train), TestSetSize (length X_test),
                           FeaturesScaled]
                      (nb\<lparr>X_train_scaled := train_scaled, X_test_scaled := test_scaled,
                          y_train := take_rows train (y_series nb),
                          y_test := take_rows test (y_series nb),
                          w_train := take_rows train (weights_series nb),
                          w_test := take_rows test (weights_series nb),
                          scaler := Some sc\<rparr>))))))
      else
        Inr (print [SkippingSplit]
               (nb\<lparr>X_train_scaled := [], X_test_scaled := [], y_train := [], y_test := [],
                   w_train := [], w_test := []\<rparr>)))"

subsection \<open>Cells 7 to 9: train, evaluate, save\<close>

definition array_size :: "'a list list \<Rightarrow> nat" where
  "array_size A = length (concat A)"

definition cell_train :: "'m env \<Rightarrow> 'm notebook \<Rightarrow> exn + 'm notebook" where
  "cell_train env nb =
     (if 0 < array_size (X_train_scaled nb) then
        then_do (MLPClassifier_fit env (X_train_scaled nb) (y_train nb)) (\<lambda>m.
          Inr (print [TrainingModel, TrainingComplete, ModelAccuracy]
                 (nb\<lparr>mlp_model := Some m\<rparr>)))
      else Inr (print [SkippingTraining] (nb\<lparr>mlp_model := None\<rparr>)))"

text \<open>The evaluation computes and prints diagnostics and assigns nothing that is used later.\<close>

definition cell_evaluate :: "'m notebook \<Rightarrow> exn + 'm notebook" where
  "cell_evaluate nb =
     (if mlp_model nb \<noteq> None \<and> 0 < array_size (X_test_scaled nb) then
        Inr (print [EvaluationReport] nb)
      else Inr (print [SkippingEvaluation] nb))"

text \<open>\<open>if mlp_model and scaler\<close>: \<open>scaler\<close> is looked up only when \<open>mlp_model\<close> is not \<open>None\<close>.\<close>

definition cell_save :: "'m env \<Rightarrow> 'm notebook \<Rightarrow> exn + 'm notebook" where
  "cell_save env nb =
     (case mlp_model nb of
        None \<Rightarrow> Inr (print [SkippingSaving] nb)
      | Some m \<Rightarrow>
          (case scaler nb of
             None \<Rightarrow> Inl (NameError ''scaler'')
           | Some sc \<Rightarrow>
               Inr (print [ModelSaved (mva_model_path env), ScalerSaved (mva_scaler_path env)]
                      (nb\<lparr>saved := saved nb @ [(mva_model_path env, Model m),
                                               (mva_scaler_path env, Scaler sc)]\<rparr>))))"

text \<open>Running the cells in order; an exception stops the run.\<close>

definition run_from_combined :: "'m env \<Rightarrow> 'm notebook \<Rightarrow> exn + 'm notebook" where
  "run_from_combined env nb =
     then_do (cell_define_X_y nb) (\<lambda>nb5.
     then_do (cell_split_scale env nb5) (\<lambda>nb6.
     then_do (cell_train env nb6) (\<lambda>nb7.
     then_do (cell_evaluate nb7) (\<lambda>nb8.
       cell_save env nb8))))"

definition run_all :: "'m env \<Rightarrow> exn + 'm notebook" where
  "run_all env = then_do (cell_load env fresh_kernel) (run_from_combined env)"

section \<open>The six predicates of the specification\<close>

text \<open>
  The specification's data model gives every photon candidate all six attributes, so
  in a well-formed event the six photon lists have one length, and a well-formed
  batch was read with the six photon branches.
\<close>

definition wf_event :: "event \<Rightarrow> bool" where
  "wf_event ev =
     (length (photon_eta ev) = length (photon_pt ev)
      \<and> length (photon_phi ev) = length (photon_pt ev)
      \<and> length (photon_e ev) = length (photon_pt ev)
      \<and> length (photon_isTightID ev) = length (photon_pt ev)
      \<and> length (photon_ptcone20 ev) = length (photon_pt ev))"

definition photon_branches :: "string list" where
  "photon_branches =
     [''photon_pt'', ''photon_eta'', ''photon_phi'', ''photon_e'',
      ''photon_isTightID'', ''photon_ptcone20'']"

definition wf_events :: "events \<Rightarrow> bool" where
  "wf_events evs =
     (list_all (\<lambda>b. b \<in> set (field_names evs)) photon_branches
      \<and> list_all wf_event (rows evs))"

text \<open>
  The predicates as the specification words them, each on one event. A predicate on
  "both leading photons" is false of an event that has no two photons.
\<close>

definition leading :: "event \<Rightarrow> nat \<Rightarrow> p4" where
  "leading ev i =
     PtEtaPhiE (photon_pt ev ! i) (photon_eta ev ! i) (photon_phi ev ! i) (photon_e ev ! i)"

definition m_yy :: "event \<Rightarrow> real" where
  "m_yy ev = mass (add4 (leading ev 0) (leading ev 1))"

definition spec_two_photons :: "event \<Rightarrow> bool" where
  "spec_two_photons ev = (2 \<le> length (photon_pt ev))"

definition spec_tight :: "event \<Rightarrow> bool" where
  "spec_tight ev =
     (spec_two_photons ev \<and> photon_isTightID ev ! 0 \<and> photon_isTightID ev ! 1)"

definition spec_pt :: "event \<Rightarrow> bool" where
  "spec_pt ev = (spec_two_photons ev \<and> 50 < photon_pt ev ! 0 \<and> 30 < photon_pt ev ! 1)"

definition spec_iso :: "event \<Rightarrow> bool" where
  "spec_iso ev =
     (spec_two_photons ev
      \<and> flt (fdiv (photon_ptcone20 ev ! 0) (photon_pt ev ! 0)) 0.055
      \<and> flt (fdiv (photon_ptcone20 ev ! 1) (photon_pt ev ! 1)) 0.055)"

definition outside_band :: "real \<Rightarrow> bool" where
  "outside_band x = (\<not> (1.37 < \<bar>x\<bar> \<and> \<bar>x\<bar> < 1.52))"

definition spec_eta :: "event \<Rightarrow> bool" where
  "spec_eta ev =
     (spec_two_photons ev \<and> outside_band (photon_eta ev ! 0)
      \<and> outside_band (photon_eta ev ! 1))"

definition spec_mass :: "event \<Rightarrow> bool" where
  "spec_mass ev =
     (spec_two_photons ev
      \<and> fgt (fdiv (photon_pt ev ! 0) (m_yy ev)) 0.35
      \<and> fgt (fdiv (photon_pt ev ! 1) (m_yy ev)) 0.35)"

definition six_predicates :: "(event \<Rightarrow> bool) list" where
  "six_predicates = [spec_two_photons, spec_tight, spec_pt, spec_iso, spec_eta, spec_mass]"

definition passes_all :: "event \<Rightarrow> bool" where
  "passes_all ev = list_all (\<lambda>P. P ev) six_predicates"

text \<open>
  The state of a batch after the photon-count cut: well formed, and every event has two
  photons.
\<close>

definition ready :: "events \<Rightarrow> bool" where
  "ready evs = (wf_events evs \<and> list_all spec_two_photons (rows evs))"

section \<open>What the loader is expected to return\<close>

text \<open>
  The feature dictionary written out event by event, for a batch in which every event
  has two photons, with the weight column as a parameter.
\<close>

definition feature_columns :: "real \<Rightarrow> event list \<Rightarrow> fval list \<Rightarrow> (string \<times> fval list) list" where
  "feature_columns flag rs ws =
     [(''ph1_pt_norm'', map (\<lambda>ev. fdiv (photon_pt ev ! 0) (m_yy ev)) rs),
      (''ph2_pt_norm'', map (\<lambda>ev. fdiv (photon_pt ev ! 1) (m_yy ev)) rs),
      (''ph1_eta'', map (\<lambda>ev. Fin (photon_eta ev ! 0)) rs),
      (''ph2_eta'', map (\<lambda>ev. Fin (photon_eta ev ! 1)) rs),
      (''delta_eta_yy'', map (\<lambda>ev. Fin (delta_eta_yy (photon_eta ev ! 0) (photon_eta ev ! 1))) rs),
      (''delta_phi_yy'', map (\<lambda>ev. Fin (delta_phi_yy (photon_phi ev ! 0) (photon_phi ev ! 1))) rs),
      (''delta_R_yy'',
         map (\<lambda>ev. Fin (delta_R_yy (delta_eta_yy (photon_eta ev ! 0) (photon_eta ev ! 1))
                                   (delta_phi_yy (photon_phi ev ! 0) (photon_phi ev ! 1)))) rs),
      (''ph1_ptcone20_norm'', map (\<lambda>ev. fdiv (photon_ptcone20 ev ! 0) (photon_pt ev ! 0)) rs),
      (''ph2_ptcone20_norm'', map (\<lambda>ev. fdiv (photon_ptcone20 ev ! 1) (photon_pt ev ! 1)) rs),
      (''cos_theta_cs_yy'', map (\<lambda>ev. Fin (cos_theta_cs_yy (photon_eta ev ! 0) (photon_eta ev ! 1))) rs),
      (''m_yy'', map (\<lambda>ev. Fin (m_yy ev)) rs),
      (''pt_yy'', map (\<lambda>ev. Fin (pt_of (add4 (leading ev 0) (leading ev 1)))) rs),
      (''eventWeight'', ws),
      (''isSignal'', map (\<lambda>ev. Fin flag) rs)]"

text \<open>
  The batches of the files that could be read, in file order; of these, the ones that
  hold events; the messages of the files that could not be read; and the frames among
  the results of processing.
\<close>

definition loaded_batches :: "filesystem \<Rightarrow> string \<Rightarrow> string list \<Rightarrow> string list \<Rightarrow> events list" where
  "loaded_batches fsys tn bs files =
     concat (map (\<lambda>p. case read_events fsys p tn bs of Inl ex \<Rightarrow> [] | Inr evs \<Rightarrow> [evs]) files)"

definition nonempty_batches :: "filesystem \<Rightarrow> string \<Rightarrow> string list \<Rightarrow> string list \<Rightarrow> events list" where
  "nonempty_batches fsys tn bs files = filter (\<lambda>evs. rows evs \<noteq> []) (loaded_batches fsys tn bs files)"

definition read_failures :: "filesystem \<Rightarrow> string \<Rightarrow> string list \<Rightarrow> string list \<Rightarrow> message list" where
  "read_failures fsys tn bs files =
     concat (map (\<lambda>p. case read_events fsys p tn bs of
                         Inl ex \<Rightarrow> [ErrorReadingFile p ex] | Inr evs \<Rightarrow> []) files)"

definition file_messages :: "filesystem \<Rightarrow> string \<Rightarrow> string list \<Rightarrow> string list \<Rightarrow> message list" where
  "file_messages fsys tn bs files =
     concat (map (\<lambda>p. case read_events fsys p tn bs of
                         Inl ex \<Rightarrow> [ErrorReadingFile p ex]
                       | Inr evs \<Rightarrow> if rows evs = [] then [NoEventsIn p] else []) files)"

definition frames :: "dataframe option list \<Rightarrow> dataframe list" where
  "frames rs = concat (map (\<lambda>r. case r of None \<Rightarrow> [] | Some df \<Rightarrow> [df]) rs)"

section \<open>Example inputs\<close>

definition ev_pass :: event where
  "ev_pass =
     \<lparr>photon_pt = [60, 60], photon_eta = [0, 0], photon_phi = [0, pi], photon_e = [60, 60],
      photon_isTightID = [True, True], photon_ptcone20 = [1, 1], mcEventWeight = Scalar 2\<rparr>"

definition ev_single :: event where
  "ev_single =
     \<lparr>photon_pt = [70], photon_eta = [0], photon_phi = [0], photon_e = [70],
      photon_isTightID = [True], photon_ptcone20 = [1], mcEventWeight = Scalar 1\<rparr>"

definition ev_band :: event where
  "ev_band = ev_pass\<lparr>photon_eta := [1.4, 0]\<rparr>"

definition ev_edge :: event where
  "ev_edge = ev_pass\<lparr>photon_eta := [1.37, - 1.52]\<rparr>"

definition example_events :: events where
  "example_events = \<lparr>field_names = branches_to_read_mc, rows = [ev_pass, ev_single, ev_band]\<rparr>"

definition edge_events :: events where
  "edge_events = \<lparr>field_names = branches_to_read_mc, rows = [ev_edge, ev_band]\<rparr>"

definition ev_seq :: event where
  "ev_seq = ev_pass\<lparr>mcEventWeight := Sequence [2, 3]\<rparr>"

definition seq_events :: events where
  "seq_events = \<lparr>field_names = branches_to_read_mc, rows = [ev_seq]\<rparr>"

definition good_tree :: tree where
  "good_tree = \<lparr>branch_names = branches_to_read_mc, entries = [ev_pass, ev_single, ev_band]\<rparr>"

definition unweighted_tree :: tree where
  "unweighted_tree = \<lparr>branch_names = photon_branches, entries = [ev_pass, ev_single, ev_band]\<rparr>"

definition example_fs :: filesystem where
  "example_fs p =
     (if p = ''good.root'' then
        Some (RootFile (\<lambda>t. if t = ''analysis'' then Some good_tree else None))
      else if p = ''unweighted.root'' then
        Some (RootFile (\<lambda>t. if t = ''analysis'' then Some unweighted_tree else None))
      else if p = ''other.root'' then Some (RootFile (\<lambda>t. None))
      else if p = ''text.root'' then Some NotRoot
      else None)"

definition example_files :: "string list" where
  "example_files = [''missing.root'', ''other.root'', ''text.root'', ''unweighted.root'', ''good.root'']"

definition example_env :: "unit env" where
  "example_env =
     \<lparr>notebook_base_dir = ''/work'',
      glob = (\<lambda>pattern. example_files),
      fs = example_fs,
      sample_order = (\<lambda>n. [0..<n]),
      train_test_split =
        (\<lambda>n labels. if n < 2 then Inl (ValueError ''the resulting train set will be empty'')
                     else Inr ([0..<n - 1], [n - 1])),
      MLPClassifier_fit = (\<lambda>A labels. Inr ())\<rparr>"

definition nodata_env :: "unit env" where
  "nodata_env = example_env\<lparr>glob := (\<lambda>pattern. [''missing.root''])\<rparr>"

definition nofiles_env :: "unit env" where
  "nofiles_env = example_env\<lparr>glob := (\<lambda>pattern. [])\<rparr>"

definition partial_nb :: "unit notebook" where
  "partial_nb =
     fresh_kernel\<lparr>df_combined_mc :=
       \<lparr>columns = [''ph1_pt_norm'', ''ph1_eta'', ''eventWeight'', ''isSignal''],
        df_rows = [[Fin (1/2), Fin 0, Fin 2, Fin 1]]\<rparr>\<rparr>"

definition row_a :: "fval list" where
  "row_a = [Fin (1/2), Fin (1/2), Fin 0, Fin 0, Fin 0, Fin 3, Fin 3, Fin (1/60), Fin (1/60), Fin 0]"

definition row_b :: "fval list" where
  "row_b = [Fin 1, Fin (1/2), Fin 1, Fin 0, Fin 1, Fin 2, Fin 2, Fin (1/50), Fin (1/60), Fin (1/3)]"

definition row_c :: "fval list" where
  "row_c = [Fin 2, Fin 1, Fin 2, Fin 1, Fin 1, Fin 1, Fin 1, Fin 0, Fin 0, Fin (1/2)]"

definition single_label_nb :: "unit notebook" where
  "single_label_nb =
     fresh_kernel\<lparr>X_df := \<lparr>columns = mva_features_list, df_rows = [row_a, row_b]\<rparr>,
                  y_series := [Fin 1, Fin 1], weights_series := [Fin 2, Fin 2]\<rparr>"

definition two_label_nb :: "unit notebook" where
  "two_label_nb = single_label_nb\<lparr>y_series := [Fin 1, Fin 0]\<rparr>"

definition two_label_nb' :: "unit notebook" where
  "two_label_nb' =
     two_label_nb\<lparr>X_df := \<lparr>columns = mva_features_list, df_rows = [row_a, row_c]\<rparr>\<rparr>"

definition scaler_a :: StandardScaler where
  "scaler_a =
     \<lparr>scaler_mean = [1/2, 1/2, 0, 0, 0, 3, 3, 1/60, 1/60, 0],
      scaler_scale = [1, 1, 1, 1, 1, 1, 1, 1, 1, 1]\<rparr>"

section \<open>The cut sequence is the conjunction of the six predicates\<close>

lemma map2_same: "map2 f (map g xs) (map h xs) = map (\<lambda>x. f (g x) (h x)) xs"
  by (induction xs) auto

lemma select_map: "select evs (map P (rows evs)) = evs\<lparr>rows := filter P (rows evs)\<rparr>"
proof -
  have "map fst (filter snd (zip xs (map P xs))) = filter P xs" for xs :: "event list"
    by (induction xs) auto
  then show ?thesis by (simp add: select_def)
qed

lemma ready_filter: "ready evs \<Longrightarrow> ready (evs\<lparr>rows := filter P (rows evs)\<rparr>)"
  by (auto simp: ready_def wf_events_def list_all_iff)

lemma collect_zip4:
  "list_all wf_event rs \<Longrightarrow>
   collect (map zip4 rs) =
     Inr (map (\<lambda>ev. map (leading ev) [0..<length (photon_pt ev)]) rs)"
  by (induction rs) (auto simp: zip4_def wf_event_def leading_def)

lemma ready_fields:
  assumes "ready evs"
  shows "''photon_pt'' \<in> set (field_names evs)" "''photon_eta'' \<in> set (field_names evs)"
    "''photon_phi'' \<in> set (field_names evs)" "''photon_e'' \<in> set (field_names evs)"
    "''photon_isTightID'' \<in> set (field_names evs)"
    "''photon_ptcone20'' \<in> set (field_names evs)"
  using assms by (simp_all add: ready_def wf_events_def photon_branches_def)

lemma ready_len:
  assumes "ready evs" "ev \<in> set (rows evs)"
  shows "2 \<le> length (photon_pt ev)" "2 \<le> length (photon_eta ev)"
    "2 \<le> length (photon_isTightID ev)" "2 \<le> length (photon_ptcone20 ev)"
  using assms
  by (auto simp: ready_def wf_events_def wf_event_def spec_two_photons_def list_all_iff)

lemma idx_ready:
  assumes "\<And>ev. ev \<in> set rs \<Longrightarrow> 2 \<le> length (sel ev)" "i < 2"
  shows "idx i (map sel rs) = Inr (map (\<lambda>ev. sel ev ! i) rs)"
proof -
  have "i < length (sel ev)" if "ev \<in> set rs" for ev
    using assms(1) [OF that] assms(2) by simp
  then show ?thesis by (simp add: idx_def list_all_iff)
qed

lemma ready_idx:
  assumes "ready evs" "i < 2"
  shows "idx i (map photon_pt (rows evs)) = Inr (map (\<lambda>ev. photon_pt ev ! i) (rows evs))"
    "idx i (map photon_eta (rows evs)) = Inr (map (\<lambda>ev. photon_eta ev ! i) (rows evs))"
    "idx i (map photon_isTightID (rows evs)) = Inr (map (\<lambda>ev. photon_isTightID ev ! i) (rows evs))"
    "idx i (map photon_ptcone20 (rows evs)) = Inr (map (\<lambda>ev. photon_ptcone20 ev ! i) (rows evs))"
  using ready_len [OF assms(1)] assms(2) by (simp_all add: idx_ready)

lemmas ready_idx01 = ready_idx [where i = 0, simplified] ready_idx [where i = 1, simplified]

lemma diphoton_ready:
  assumes "ready evs"
  shows "diphoton evs = Inr (map (\<lambda>ev. add4 (leading ev 0) (leading ev 1)) (rows evs))"
proof -
  let ?zipped = "\<lambda>ev. map (leading ev) [0..<length (photon_pt ev)]"
  have wf: "list_all wf_event (rows evs)"
    using assms by (simp add: ready_def wf_events_def)
  have vz: "vector_zip evs = Inr (map ?zipped (rows evs))"
    using ready_fields [OF assms] by (simp add: vector_zip_def get_field_def collect_zip4 [OF wf])
  have len: "2 \<le> length (?zipped ev)" if "ev \<in> set (rows evs)" for ev
    using ready_len(1) [OF assms that] by simp
  have nth: "map (\<lambda>ev. ?zipped ev ! i) (rows evs) = map (\<lambda>ev. leading ev i) (rows evs)"
    if "i < 2" for i
  proof (rule map_cong [OF refl])
    fix ev assume "ev \<in> set (rows evs)"
    then have "i < length (photon_pt ev)"
      using ready_len(1) [OF assms] that by fastforce
    then show "?zipped ev ! i = leading ev i" by simp
  qed
  have i0: "idx 0 (map ?zipped (rows evs)) = Inr (map (\<lambda>ev. leading ev 0) (rows evs))"
    using idx_ready [of "rows evs" ?zipped 0, OF len] nth [of 0] by simp
  have i1: "idx 1 (map ?zipped (rows evs)) = Inr (map (\<lambda>ev. leading ev 1) (rows evs))"
    using idx_ready [of "rows evs" ?zipped 1, OF len] nth [of 1] by simp
  show ?thesis
    by (simp add: diphoton_def vz i0 i1 [unfolded One_nat_def] map2_same del: add4.simps)
qed

lemma n_photons_cut_ok:
  "wf_events evs \<Longrightarrow>
   apply_cut n_photons_cut evs = Inr (evs\<lparr>rows := filter spec_two_photons (rows evs)\<rparr>)"
proof -
  assume "wf_events evs"
  then have "''photon_pt'' \<in> set (field_names evs)"
    by (simp add: wf_events_def photon_branches_def)
  then have "n_photons_cut evs = Inr (map spec_two_photons (rows evs))"
    by (simp add: n_photons_cut_def get_field_def spec_two_photons_def [abs_def])
  then show ?thesis by (simp add: apply_cut_def select_map)
qed

lemma tight_id_cut_ok:
  assumes "ready evs"
  shows "apply_cut tight_id_cut evs =
           Inr (evs\<lparr>rows := filter (\<lambda>ev. photon_isTightID ev ! 0 \<and> photon_isTightID ev ! 1) (rows evs)\<rparr>)"
proof -
  have "tight_id_cut evs = Inr (map (\<lambda>ev. photon_isTightID ev ! 0 \<and> photon_isTightID ev ! 1) (rows evs))"
    using ready_fields [OF assms]
    by (simp add: tight_id_cut_def get_field_def ready_idx01 [OF assms] map2_same)
  then show ?thesis by (simp add: apply_cut_def select_map)
qed

lemma pt_cut_ok:
  assumes "ready evs"
  shows "apply_cut pt_cut evs =
           Inr (evs\<lparr>rows := filter (\<lambda>ev. 50 < photon_pt ev ! 0 \<and> 30 < photon_pt ev ! 1) (rows evs)\<rparr>)"
proof -
  have "pt_cut evs = Inr (map (\<lambda>ev. 50 < photon_pt ev ! 0 \<and> 30 < photon_pt ev ! 1) (rows evs))"
    using ready_fields [OF assms]
    by (simp add: pt_cut_def get_field_def ready_idx01 [OF assms] map2_same)
  then show ?thesis by (simp add: apply_cut_def select_map)
qed

lemma iso_cut_ok:
  assumes "ready evs"
  shows "apply_cut iso_cut evs =
           Inr (evs\<lparr>rows := filter (\<lambda>ev. flt (fdiv (photon_ptcone20 ev ! 0) (photon_pt ev ! 0)) 0.055
                                       \<and> flt (fdiv (photon_ptcone20 ev ! 1) (photon_pt ev ! 1)) 0.055)
                                  (rows evs)\<rparr>)"
proof -
  have "iso_cut evs =
          Inr (map (\<lambda>ev. flt (fdiv (photon_ptcone20 ev ! 0) (photon_pt ev ! 0)) 0.055
                       \<and> flt (fdiv (photon_ptcone20 ev ! 1) (photon_pt ev ! 1)) 0.055) (rows evs))"
    using ready_fields [OF assms]
    by (simp add: iso_cut_def get_field_def ready_idx01 [OF assms] map2_same)
  then show ?thesis by (simp add: apply_cut_def select_map)
qed

lemma eta_cut_mask:
  assumes "''photon_eta'' \<in> set (field_names evs)"
    and "list_all (\<lambda>ev. 2 \<le> length (photon_eta ev)) (rows evs)"
  shows "apply_cut eta_cut evs =
           Inr (evs\<lparr>rows := filter (\<lambda>ev. outside_band (photon_eta ev ! 0)
                                       \<and> outside_band (photon_eta ev ! 1)) (rows evs)\<rparr>)"
proof -
  have len: "2 \<le> length (photon_eta ev)" if "ev \<in> set (rows evs)" for ev
    using assms(2) that by (simp add: list_all_iff)
  have i0: "idx 0 (map photon_eta (rows evs)) = Inr (map (\<lambda>ev. photon_eta ev ! 0) (rows evs))"
    by (rule idx_ready [OF len]) simp_all
  have i1: "idx (Suc 0) (map photon_eta (rows evs))
              = Inr (map (\<lambda>ev. photon_eta ev ! Suc 0) (rows evs))"
    by (rule idx_ready [OF len]) simp_all
  have "eta_cut evs =
          Inr (map (\<lambda>ev. outside_band (photon_eta ev ! 0) \<and> outside_band (photon_eta ev ! 1)) (rows evs))"
    using assms(1)
    by (simp add: eta_cut_def eta_cut_ph0_def eta_cut_ph1_def get_field_def i0 i1 map2_same
        outside_band_def)
  then show ?thesis by (simp add: apply_cut_def select_map)
qed

lemma eta_cut_ok:
  assumes "ready evs"
  shows "apply_cut eta_cut evs =
           Inr (evs\<lparr>rows := filter (\<lambda>ev. outside_band (photon_eta ev ! 0)
                                       \<and> outside_band (photon_eta ev ! 1)) (rows evs)\<rparr>)"
proof (rule eta_cut_mask)
  show "''photon_eta'' \<in> set (field_names evs)" by (rule ready_fields(2) [OF assms])
  show "list_all (\<lambda>ev. 2 \<le> length (photon_eta ev)) (rows evs)"
    using ready_len(2) [OF assms] by (simp add: list_all_iff)
qed

lemma mass_iso_cut_ok:
  assumes "ready evs"
  shows "apply_cut mass_iso_cut evs =
           Inr (evs\<lparr>rows := filter (\<lambda>ev. fgt (fdiv (photon_pt ev ! 0) (m_yy ev)) 0.35
                                       \<and> fgt (fdiv (photon_pt ev ! 1) (m_yy ev)) 0.35) (rows evs)\<rparr>)"
proof -
  have "mass_iso_cut evs =
          Inr (map (\<lambda>ev. fgt (fdiv (photon_pt ev ! 0) (m_yy ev)) 0.35
                       \<and> fgt (fdiv (photon_pt ev ! 1) (m_yy ev)) 0.35) (rows evs))"
    using ready_fields [OF assms]
    by (simp add: mass_iso_cut_def diphoton_ready [OF assms] get_field_def
        ready_idx01 [OF assms] map2_same m_yy_def del: add4.simps)
  then show ?thesis by (simp add: apply_cut_def select_map)
qed

lemma passes_all_iff:
  "passes_all ev \<longleftrightarrow>
     spec_two_photons ev
     \<and> (photon_isTightID ev ! 0 \<and> photon_isTightID ev ! 1)
     \<and> (50 < photon_pt ev ! 0 \<and> 30 < photon_pt ev ! 1)
     \<and> (flt (fdiv (photon_ptcone20 ev ! 0) (photon_pt ev ! 0)) 0.055
        \<and> flt (fdiv (photon_ptcone20 ev ! 1) (photon_pt ev ! 1)) 0.055)
     \<and> (outside_band (photon_eta ev ! 0) \<and> outside_band (photon_eta ev ! 1))
     \<and> (fgt (fdiv (photon_pt ev ! 0) (m_yy ev)) 0.35
        \<and> fgt (fdiv (photon_pt ev ! 1) (m_yy ev)) 0.35)"
  unfolding passes_all_def six_predicates_def spec_tight_def spec_pt_def spec_iso_def
    spec_eta_def spec_mass_def
  by auto

lemma preselect_filter:
  assumes wf: "wf_events evs"
  shows "preselect evs = Inr (evs\<lparr>rows := filter passes_all (rows evs)\<rparr>)"
proof -
  let ?T = "evs\<lparr>rows := filter passes_all (rows evs)\<rparr>"
  define E1 where "E1 = evs\<lparr>rows := filter spec_two_photons (rows evs)\<rparr>"
  define E2 where
    "E2 = E1\<lparr>rows := filter (\<lambda>ev. photon_isTightID ev ! 0 \<and> photon_isTightID ev ! 1) (rows E1)\<rparr>"
  define E3 where
    "E3 = E2\<lparr>rows := filter (\<lambda>ev. 50 < photon_pt ev ! 0 \<and> 30 < photon_pt ev ! 1) (rows E2)\<rparr>"
  define E4 where
    "E4 = E3\<lparr>rows := filter (\<lambda>ev. flt (fdiv (photon_ptcone20 ev ! 0) (photon_pt ev ! 0)) 0.055
                               \<and> flt (fdiv (photon_ptcone20 ev ! 1) (photon_pt ev ! 1)) 0.055)
                          (rows E3)\<rparr>"
  define E5 where
    "E5 = E4\<lparr>rows := filter (\<lambda>ev. outside_band (photon_eta ev ! 0)
                               \<and> outside_band (photon_eta ev ! 1)) (rows E4)\<rparr>"
  define E6 where
    "E6 = E5\<lparr>rows := filter (\<lambda>ev. fgt (fdiv (photon_pt ev ! 0) (m_yy ev)) 0.35
                               \<and> fgt (fdiv (photon_pt ev ! 1) (m_yy ev)) 0.35) (rows E5)\<rparr>"
  have r1: "ready E1"
    using wf by (auto simp: E1_def ready_def wf_events_def list_all_iff)
  have r2: "ready E2" unfolding E2_def by (rule ready_filter [OF r1])
  have r3: "ready E3" unfolding E3_def by (rule ready_filter [OF r2])
  have r4: "ready E4" unfolding E4_def by (rule ready_filter [OF r3])
  have r5: "ready E5" unfolding E5_def by (rule ready_filter [OF r4])
  have s1: "apply_cut n_photons_cut evs = Inr E1"
    unfolding E1_def by (rule n_photons_cut_ok [OF wf])
  have s2: "apply_cut tight_id_cut E1 = Inr E2"
    unfolding E2_def by (rule tight_id_cut_ok [OF r1])
  have s3: "apply_cut pt_cut E2 = Inr E3"
    unfolding E3_def by (rule pt_cut_ok [OF r2])
  have s4: "apply_cut iso_cut E3 = Inr E4"
    unfolding E4_def by (rule iso_cut_ok [OF r3])
  have s5: "apply_cut eta_cut E4 = Inr E5"
    unfolding E5_def by (rule eta_cut_ok [OF r4])
  have s6: "apply_cut mass_iso_cut E5 = Inr E6"
    unfolding E6_def by (rule mass_iso_cut_ok [OF r5])
  have e6: "E6 = ?T"
    unfolding E6_def E5_def E4_def E3_def E2_def E1_def
    by (simp add: passes_all_iff [abs_def] cong: conj_cong)
  have sub: "set (rows ?T) \<subseteq> set (rows E5)" "set (rows E5) \<subseteq> set (rows E4)"
    "set (rows E4) \<subseteq> set (rows E3)" "set (rows E3) \<subseteq> set (rows E2)"
    "set (rows E2) \<subseteq> set (rows E1)"
    unfolding E5_def E4_def E3_def E2_def E1_def by (auto simp: passes_all_iff)
  have fn: "field_names E5 = field_names evs" "field_names E4 = field_names evs"
    "field_names E3 = field_names evs" "field_names E2 = field_names evs"
    "field_names E1 = field_names evs" "events.more E5 = events.more evs"
    "events.more E4 = events.more evs" "events.more E3 = events.more evs"
    "events.more E2 = events.more evs" "events.more E1 = events.more evs"
    unfolding E5_def E4_def E3_def E2_def E1_def by simp_all
  have t: "E = ?T" if "rows E = []" "set (rows ?T) \<subseteq> set (rows E)"
    "field_names E = field_names evs" "events.more E = events.more evs" for E
    using that by (intro events.equality) auto
  have t5: "(Inr E5 :: exn + events) = Inr ?T" if "rows E5 = []"
    using t [OF that] sub fn by simp
  have t4: "(Inr E4 :: exn + events) = Inr ?T" if "rows E4 = []"
    using t [OF that] sub fn by auto
  have t3: "(Inr E3 :: exn + events) = Inr ?T" if "rows E3 = []"
    using t [OF that] sub fn by auto
  have t2: "(Inr E2 :: exn + events) = Inr ?T" if "rows E2 = []"
    using t [OF that] sub fn by auto
  have t1: "(Inr E1 :: exn + events) = Inr ?T" if "rows E1 = []"
    using t [OF that] sub fn by auto
  show ?thesis
    unfolding preselect_def by (simp add: s1 s2 s3 s4 s5 s6 e6 t1 t2 t3 t4 t5)
qed

lemma sqrt_14400: "sqrt 14400 = 120"
  using real_sqrt_abs [of 120] by simp

lemma m_yy_ev_pass: "m_yy ev_pass = 120"
  by (simp add: ev_pass_def m_yy_def leading_def mass_def sqrt_14400)

lemma wf_example_events: "wf_events example_events"
  by (simp add: wf_events_def example_events_def photon_branches_def branches_to_read_mc_def
      wf_event_def ev_pass_def ev_single_def ev_band_def)

lemma survivors_example: "filter passes_all (rows example_events) = [ev_pass]"
proof -
  have p1: "passes_all ev_pass"
    by (simp add: passes_all_iff m_yy_ev_pass)
       (simp add: ev_pass_def spec_two_photons_def outside_band_def fdiv_def)
  have p2: "\<not> passes_all ev_single"
    by (simp add: passes_all_iff spec_two_photons_def ev_single_def)
  have p3: "\<not> passes_all ev_band"
    by (simp add: passes_all_iff outside_band_def ev_band_def)
  show ?thesis by (simp add: example_events_def p1 p2 p3)
qed

text \<open>
  C1. On every well-formed batch the cut sequence returns exactly the input events that
  satisfy the conjunction of the six predicates, in their input order; the same holds
  for the six predicates taken in any other order.
\<close>

theorem preselect_is_conjunction:
  assumes "wf_events evs"
  shows "preselect evs = Inr (evs\<lparr>rows := filter passes_all (rows evs)\<rparr>)
         \<and> (\<forall>ps. set ps = set six_predicates \<longrightarrow>
               preselect evs = Inr (evs\<lparr>rows := filter (\<lambda>ev. list_all (\<lambda>P. P ev) ps) (rows evs)\<rparr>))"
proof -
  have "(\<lambda>ev. list_all (\<lambda>P. P ev) ps) = passes_all" if "set ps = set six_predicates" for ps
    using that by (simp add: passes_all_def list_all_iff fun_eq_iff)
  then show ?thesis using preselect_filter [OF assms] by simp
qed

theorem preselect_is_conjunction_witness:
  "wf_events example_events
   \<and> preselect example_events = Inr (example_events\<lparr>rows := [ev_pass]\<rparr>)"
  using wf_example_events preselect_is_conjunction [OF wf_example_events]
  by (simp add: survivors_example)

text \<open>
  C9. The transition-region veto removes an event only when a leading photon has
  \<open>1.37 < |eta| < 1.52\<close>, both inequalities strict: an event whose two leading photons
  have \<open>|eta|\<close> equal to 1.37 or to 1.52 is kept by this cut.
\<close>

theorem eta_veto_endpoints_survive:
  assumes "''photon_eta'' \<in> set (field_names evs)"
    and "list_all (\<lambda>ev. 2 \<le> length (photon_eta ev)) (rows evs)"
  shows "\<exists>kept. apply_cut eta_cut evs = Inr (evs\<lparr>rows := kept\<rparr>)
           \<and> kept = filter (\<lambda>ev. \<not> (1.37 < \<bar>photon_eta ev ! 0\<bar> \<and> \<bar>photon_eta ev ! 0\<bar> < 1.52)
                              \<and> \<not> (1.37 < \<bar>photon_eta ev ! 1\<bar> \<and> \<bar>photon_eta ev ! 1\<bar> < 1.52))
                         (rows evs)
           \<and> (\<forall>ev \<in> set (rows evs).
                 (\<bar>photon_eta ev ! 0\<bar> = 1.37 \<or> \<bar>photon_eta ev ! 0\<bar> = 1.52)
                 \<and> (\<bar>photon_eta ev ! 1\<bar> = 1.37 \<or> \<bar>photon_eta ev ! 1\<bar> = 1.52)
                 \<longrightarrow> ev \<in> set kept)"
  using eta_cut_mask [OF assms] by (auto simp: outside_band_def)

theorem eta_veto_endpoints_survive_witness:
  "''photon_eta'' \<in> set (field_names edge_events)
   \<and> list_all (\<lambda>ev. 2 \<le> length (photon_eta ev)) (rows edge_events)
   \<and> \<bar>photon_eta ev_edge ! 0\<bar> = 1.37 \<and> \<bar>photon_eta ev_edge ! 1\<bar> = 1.52
   \<and> apply_cut eta_cut edge_events = Inr (edge_events\<lparr>rows := [ev_edge]\<rparr>)"
proof -
  have f: "''photon_eta'' \<in> set (field_names edge_events)"
    by (simp add: edge_events_def branches_to_read_mc_def)
  have l: "list_all (\<lambda>ev. 2 \<le> length (photon_eta ev)) (rows edge_events)"
    by (simp add: edge_events_def ev_edge_def ev_band_def ev_pass_def)
  show ?thesis
    using f l eta_veto_endpoints_survive [OF f l]
    by (simp add: edge_events_def ev_edge_def ev_band_def ev_pass_def)
qed

section \<open>The azimuthal separation\<close>

lemma np_mod_range:
  assumes "0 < b"
  shows "0 \<le> np_mod a b" "np_mod a b < b"
proof -
  define k where "k = real_of_int \<lfloor>a / b\<rfloor>"
  have le: "k \<le> a / b" unfolding k_def by (rule of_int_floor_le)
  have lt: "a / b < k + 1" unfolding k_def by linarith
  have "k * b \<le> a" using le assms by (simp add: pos_le_divide_eq)
  then show "0 \<le> np_mod a b" by (simp add: np_mod_def k_def [symmetric] mult.commute)
  have "a < (k + 1) * b" using lt assms by (simp add: pos_divide_less_eq)
  then show "np_mod a b < b" by (simp add: np_mod_def k_def [symmetric] algebra_simps)
qed

text \<open>
  C2. For all real azimuthal angles, wrap-around pairs included, the feature
  \<open>delta_phi_yy\<close> lies in the closed interval from 0 to \<open>pi\<close>.
\<close>

theorem delta_phi_yy_in_0_pi:
  "0 \<le> delta_phi_yy ph1_phi ph2_phi \<and> delta_phi_yy ph1_phi ph2_phi \<le> pi"
proof -
  have "0 \<le> np_mod (ph1_phi - ph2_phi + pi) (2 * pi)"
    "np_mod (ph1_phi - ph2_phi + pi) (2 * pi) < 2 * pi"
    using np_mod_range [of "2 * pi" "ph1_phi - ph2_phi + pi"] by simp_all
  then show ?thesis by (simp add: delta_phi_yy_def abs_le_iff)
qed

section \<open>Event weights and the feature table\<close>

lemma collect_map_Inr:
  "(\<And>x. x \<in> set xs \<Longrightarrow> f x = Inr (g x)) \<Longrightarrow> collect (map f xs) = Inr (map g xs)"
  by (induction xs) auto

lemma event_weights_scalar:
  assumes "''mcEventWeight'' \<in> set (field_names evs)"
    and "list_all (\<lambda>ev. \<not> is_sequence (mcEventWeight ev)) (rows evs)"
  shows "event_weights evs ph1_pt = Inr (map mcEventWeight (rows evs))"
  using assms by (simp add: event_weights_def ndim_def list_ex_iff list_all_iff)

lemma event_weights_absent:
  assumes "''mcEventWeight'' \<notin> set (field_names evs)"
  shows "event_weights evs ph1_pt = Inr (map (\<lambda>p. Scalar 1) ph1_pt)"
  using assms by (simp add: event_weights_def ndim_def list_ex_iff)

lemma event_weights_sequence:
  assumes "''mcEventWeight'' \<in> set (field_names evs)"
    and "list_ex (\<lambda>ev. is_sequence (mcEventWeight ev)) (rows evs)"
  shows "event_weights evs ph1_pt = Inl (AttributeError ''length'')"
  using assms by (simp add: event_weights_def ndim_def list_ex_iff type_content_length_def)

lemma ready_len6:
  assumes "ready evs" "ev \<in> set (rows evs)"
  shows "2 \<le> length (photon_phi ev)" "2 \<le> length (photon_e ev)"
  using assms
  by (auto simp: ready_def wf_events_def wf_event_def spec_two_photons_def list_all_iff)

lemma ready_idx_phi_e:
  assumes "ready evs" "i < 2"
  shows "idx i (map photon_phi (rows evs)) = Inr (map (\<lambda>ev. photon_phi ev ! i) (rows evs))"
    "idx i (map photon_e (rows evs)) = Inr (map (\<lambda>ev. photon_e ev ! i) (rows evs))"
  using ready_len6 [OF assms(1)] assms(2) by (simp_all add: idx_ready)

lemmas ready_idx_phi_e01 =
  ready_idx_phi_e [where i = 0, simplified] ready_idx_phi_e [where i = 1, simplified]

lemma map2_same_comp:
  "map (\<lambda>x. g (case x of (a, b) \<Rightarrow> f a b)) (zip (map h xs) (map k xs))
     = map (\<lambda>x. g (f (h x) (k x))) xs"
  by (induction xs) auto

lemma features_ready:
  assumes r: "ready evs"
    and w: "event_weights evs (map (\<lambda>ev. photon_pt ev ! 0) (rows evs)) = Inr ws"
    and v: "collect (map weight_value ws) = Inr vs"
  shows "features flag evs = Inr (feature_columns flag (rows evs) vs)"
  using ready_fields [OF r]
  by (simp add: features_def diphoton_ready [OF r] get_field_def ready_idx01 [OF r]
      ready_idx_phi_e01 [OF r] w v map2_same map2_same_comp feature_columns_def m_yy_def o_def
      del: add4.simps)

lemma features_weights_raise:
  assumes r: "ready evs"
    and w: "event_weights evs (map (\<lambda>ev. photon_pt ev ! 0) (rows evs)) = Inl ex"
  shows "features flag evs = Inl ex"
  using ready_fields [OF r]
  by (simp add: features_def diphoton_ready [OF r] get_field_def ready_idx01 [OF r]
      ready_idx_phi_e01 [OF r] w del: add4.simps)

lemma ready_survivors:
  assumes "wf_events evs"
  shows "ready (evs\<lparr>rows := filter passes_all (rows evs)\<rparr>)"
  using assms by (auto simp: ready_def wf_events_def list_all_iff passes_all_iff)

lemma process_events_wf:
  assumes "wf_events evs"
  shows "process_events flag evs =
           (if filter passes_all (rows evs) = [] then Inr None
            else then_do (features flag (evs\<lparr>rows := filter passes_all (rows evs)\<rparr>))
                   (\<lambda>df_dict. Inr (Some (DataFrame df_dict))))"
  by (simp add: process_events_def preselect_filter [OF assms])

lemma passes_all_ev_seq: "passes_all ev_seq"
proof -
  have "m_yy ev_seq = 120"
    by (simp add: ev_seq_def ev_pass_def m_yy_def leading_def mass_def sqrt_14400)
  then show ?thesis
    by (simp add: passes_all_iff)
       (simp add: ev_seq_def ev_pass_def spec_two_photons_def outside_band_def fdiv_def)
qed

text \<open>
  C8 (the case of a weight that is a list per event). The source means to take the
  first element, as its comment says; the guard of that reduction raises instead, so
  a batch with list weights that has survivors makes the processing raise
  AttributeError and no weight is emitted.
\<close>

theorem sequence_weights_raise:
  "process_events 1 seq_events = Inl (AttributeError ''length'')"
proof -
  have wf: "wf_events seq_events"
    by (simp add: wf_events_def seq_events_def photon_branches_def branches_to_read_mc_def
        wf_event_def ev_seq_def ev_pass_def)
  have keep: "filter passes_all (rows seq_events) = [ev_seq]"
    by (simp add: seq_events_def passes_all_ev_seq)
  have "seq_events\<lparr>rows := [ev_seq]\<rparr> = seq_events" by (simp add: seq_events_def)
  then have r: "ready seq_events" using ready_survivors [OF wf] keep by simp
  have "event_weights seq_events ph = Inl (AttributeError ''length'')" for ph
    by (rule event_weights_sequence)
       (simp_all add: seq_events_def branches_to_read_mc_def ev_seq_def)
  then have "features 1 seq_events = Inl (AttributeError ''length'')"
    by (rule features_weights_raise [OF r])
  then show ?thesis
    using process_events_wf [OF wf, of 1] keep \<open>seq_events\<lparr>rows := [ev_seq]\<rparr> = seq_events\<close>
    by simp
qed

text \<open>
  The two other kinds of weight column, on a batch that has passed the cuts: a weight
  that is one number per event is emitted unchanged, and when the weight field was not
  read the emitted weight is 1.
\<close>

lemma event_weight_carried:
  assumes r: "ready evs"
    and f: "''mcEventWeight'' \<in> set (field_names evs)"
    and s: "\<And>ev. ev \<in> set (rows evs) \<Longrightarrow> mcEventWeight ev = Scalar (w ev)"
  shows "features flag evs = Inr (feature_columns flag (rows evs) (map (\<lambda>ev. Fin (w ev)) (rows evs)))"
proof (rule features_ready [OF r])
  show "event_weights evs (map (\<lambda>ev. photon_pt ev ! 0) (rows evs)) = Inr (map mcEventWeight (rows evs))"
    using s by (intro event_weights_scalar [OF f]) (simp add: list_all_iff)
  show "collect (map weight_value (map mcEventWeight (rows evs))) = Inr (map (\<lambda>ev. Fin (w ev)) (rows evs))"
    unfolding map_map by (rule collect_map_Inr) (simp add: s)
qed

lemma event_weight_default:
  assumes r: "ready evs"
    and f: "''mcEventWeight'' \<notin> set (field_names evs)"
  shows "features flag evs = Inr (feature_columns flag (rows evs) (map (\<lambda>ev. Fin 1) (rows evs)))"
proof (rule features_ready [OF r])
  show "event_weights evs (map (\<lambda>ev. photon_pt ev ! 0) (rows evs))
          = Inr (map (\<lambda>p. Scalar 1) (map (\<lambda>ev. photon_pt ev ! 0) (rows evs)))"
    by (rule event_weights_absent [OF f])
  show "collect (map weight_value (map (\<lambda>p. Scalar 1) (map (\<lambda>ev. photon_pt ev ! 0) (rows evs))))
          = Inr (map (\<lambda>ev. Fin 1) (rows evs))"
    unfolding map_map by (rule collect_map_Inr) simp
qed

lemma process_example:
  "process_events 1 example_events = Inr (Some (DataFrame (feature_columns 1 [ev_pass] [Fin 2])))"
proof -
  let ?S = "example_events\<lparr>rows := [ev_pass]\<rparr>"
  have r: "ready ?S"
    using ready_survivors [OF wf_example_events] by (simp add: survivors_example)
  have "features 1 ?S = Inr (feature_columns 1 (rows ?S) (map (\<lambda>ev. Fin ((\<lambda>ev. 2) ev)) (rows ?S)))"
    by (rule event_weight_carried [OF r])
       (simp_all add: example_events_def branches_to_read_mc_def ev_pass_def)
  then show ?thesis
    by (simp add: process_events_wf [OF wf_example_events] survivors_example)
qed

lemma example_row:
  "df_rows (DataFrame (feature_columns 1 [ev_pass] [Fin 2]))
     = [[Fin (1/2), Fin (1/2), Fin 0, Fin 0, Fin 0, Fin pi, Fin pi, Fin (1/60), Fin (1/60),
         Fin 0, Fin 120, Fin 0, Fin 2, Fin 1]]"
  by (simp add: DataFrame_def feature_columns_def m_yy_ev_pass)
     (simp add: ev_pass_def fdiv_def delta_eta_yy_def delta_phi_yy_def np_mod_def delta_R_yy_def
        cos_theta_cs_yy_def leading_def)


section \<open>Read failures\<close>

lemma then_do_Inr_iff: "then_do m f = Inr b \<longleftrightarrow> (\<exists>a. m = Inr a \<and> f a = Inr b)"
  by (cases m) simp_all

lemma apply_cut_fields: "apply_cut c evs = Inr evs' \<Longrightarrow> field_names evs' = field_names evs"
  by (auto simp: apply_cut_def select_def then_do_Inr_iff)

lemma guarded_step:
  assumes "then_do (apply_cut c evs) (\<lambda>e. if rows e = [] then Inr e else K e) = Inr evs'"
  obtains e where "field_names e = field_names evs" "K e = Inr evs'"
  | "field_names evs' = field_names evs"
proof -
  from assms obtain e where e: "apply_cut c evs = Inr e"
    and k: "(if rows e = [] then Inr e else K e) = Inr evs'"
    by (auto simp: then_do_Inr_iff)
  show thesis
  proof (cases "rows e = []")
    case True
    with k have "evs' = e" by simp
    with apply_cut_fields [OF e] that(2) show thesis by simp
  next
    case False
    with k have "K e = Inr evs'" by simp
    with apply_cut_fields [OF e] that(1) show thesis by simp
  qed
qed

lemma preselect_fields:
  assumes "preselect evs = Inr evs'"
  shows "field_names evs' = field_names evs"
  using assms unfolding preselect_def
  by (elim guarded_step) (auto dest: apply_cut_fields)

lemma read_events_fields:
  assumes "read_events fsys p tn bs = Inr evs"
  shows "field_names evs = bs"
proof -
  from assms obtain t where "tree_arrays t bs = Inr evs"
    by (auto simp: read_events_def then_do_Inr_iff)
  then show ?thesis
    by (cases "filter (\<lambda>b. b \<notin> set (branch_names t)) bs") (auto simp: tree_arrays_def)
qed

lemma example_reads:
  "read_events example_fs ''missing.root'' ''analysis'' branches_to_read_mc
     = Inl (FileNotFoundError ''missing.root'')"
  "read_events example_fs ''other.root'' ''analysis'' branches_to_read_mc
     = Inl (KeyInFileError ''analysis'')"
  "read_events example_fs ''text.root'' ''analysis'' branches_to_read_mc
     = Inl DeserializationError"
  "read_events example_fs ''unweighted.root'' ''analysis'' branches_to_read_mc
     = Inl (KeyInFileError ''mcEventWeight'')"
  "read_events example_fs ''good.root'' ''analysis'' branches_to_read_mc = Inr example_events"
  by (simp_all add: read_events_def uproot_open_def example_fs_def tree_arrays_def
      unweighted_tree_def good_tree_def photon_branches_def branches_to_read_mc_def
      example_events_def)


lemma load_files_char:
  "load_files fsys tn bs flag files =
     then_do (collect (map (process_events flag) (nonempty_batches fsys tn bs files)))
       (\<lambda>rs. Inr (file_messages fsys tn bs files, frames rs))"
proof (induction files)
  case Nil
  show ?case
    by (simp add: nonempty_batches_def loaded_batches_def file_messages_def frames_def)
next
  case (Cons p rest)
  let ?C = "collect (map (process_events flag) (nonempty_batches fsys tn bs rest))"
  show ?case
  proof (cases "read_events fsys p tn bs")
    case (Inl ex)
    then have nb: "nonempty_batches fsys tn bs (p # rest) = nonempty_batches fsys tn bs rest"
      and fm: "file_messages fsys tn bs (p # rest)
                 = ErrorReadingFile p ex # file_messages fsys tn bs rest"
      by (simp_all add: nonempty_batches_def loaded_batches_def file_messages_def)
    show ?thesis
      unfolding nb fm using Inl Cons.IH by (cases ?C) simp_all
  next
    case (Inr evs)
    show ?thesis
    proof (cases "rows evs = []")
      case True
      with Inr have nb: "nonempty_batches fsys tn bs (p # rest) = nonempty_batches fsys tn bs rest"
        and fm: "file_messages fsys tn bs (p # rest)
                   = NoEventsIn p # file_messages fsys tn bs rest"
        by (simp_all add: nonempty_batches_def loaded_batches_def file_messages_def)
      show ?thesis
        unfolding nb fm using Inr True Cons.IH by (cases ?C) simp_all
    next
      case False
      with Inr have nb: "nonempty_batches fsys tn bs (p # rest)
                           = evs # nonempty_batches fsys tn bs rest"
        and fm: "file_messages fsys tn bs (p # rest) = file_messages fsys tn bs rest"
        by (simp_all add: nonempty_batches_def loaded_batches_def file_messages_def)
      show ?thesis
        unfolding nb fm using Inr False Cons.IH
        by (cases "process_events flag evs"; cases ?C)
           (auto simp: frames_def split: option.splits)
    qed
  qed
qed

lemma read_failures_logged:
  "set (read_failures fsys tn bs files) \<subseteq> set (file_messages fsys tn bs files)"
  by (induction files) (auto simp: read_failures_def file_messages_def split: sum.splits)

text \<open>
  C7. The loader raises only when the processing of a batch that was read raises,
  never because a read failed. Otherwise it returns, every failed read is among the
  printed messages, and the rows of the returned table are the rows of the frames of
  the batches that were read, in file order, without the rows that hold NaN.
\<close>

theorem read_failure_skips_only_that_file:
  "case collect (map (process_events flag)
                   (nonempty_batches (fs env) tn bs (glob env pattern))) of
     Inl ex \<Rightarrow> load_and_preprocess_mc_for_mva env pattern flag tn bs = Inl ex
   | Inr rs \<Rightarrow>
       (\<exists>out df. load_and_preprocess_mc_for_mva env pattern flag tn bs = Inr (out, df)
          \<and> set (read_failures (fs env) tn bs (glob env pattern)) \<subseteq> set out
          \<and> df_rows df = filter (\<lambda>r. \<not> list_ex isna r) (concat (map df_rows (frames rs))))"
proof (cases "glob env pattern = []")
  case True
  then show ?thesis
    by (simp add: load_and_preprocess_mc_for_mva_def nonempty_batches_def loaded_batches_def
        read_failures_def frames_def empty_frame_def)
next
  case False
  show ?thesis
  proof (cases "collect (map (process_events flag)
                           (nonempty_batches (fs env) tn bs (glob env pattern)))")
    case (Inl ex)
    then show ?thesis
      using False by (simp add: load_and_preprocess_mc_for_mva_def load_files_char)
  next
    case (Inr rs)
    then show ?thesis
      using False read_failures_logged [of "fs env" tn bs "glob env pattern"]
      by (auto simp: load_and_preprocess_mc_for_mva_def load_files_char Let_def
          empty_frame_def dropna_def pd_concat_def)
  qed
qed

theorem read_failure_skips_only_that_file_witness:
  "\<exists>out df.
     load_and_preprocess_mc_for_mva example_env ''*.root'' 1 ''analysis'' branches_to_read_mc
       = Inr (out, df)
     \<and> {ErrorReadingFile ''missing.root'' (FileNotFoundError ''missing.root''),
        ErrorReadingFile ''other.root'' (KeyInFileError ''analysis''),
        ErrorReadingFile ''text.root'' DeserializationError,
        ErrorReadingFile ''unweighted.root'' (KeyInFileError ''mcEventWeight'')} \<subseteq> set out
     \<and> df_rows df
         = [[Fin (1/2), Fin (1/2), Fin 0, Fin 0, Fin 0, Fin pi, Fin pi, Fin (1/60), Fin (1/60),
             Fin 0, Fin 120, Fin 0, Fin 2, Fin 1]]"
proof -
  have g: "glob example_env ''*.root'' = example_files" and f: "fs example_env = example_fs"
    by (simp_all add: example_env_def)
  have nb: "nonempty_batches example_fs ''analysis'' branches_to_read_mc example_files
              = [example_events]"
    by (simp add: nonempty_batches_def loaded_batches_def example_files_def example_reads)
       (simp add: example_events_def)
  have rf: "read_failures example_fs ''analysis'' branches_to_read_mc example_files
              = [ErrorReadingFile ''missing.root'' (FileNotFoundError ''missing.root''),
                 ErrorReadingFile ''other.root'' (KeyInFileError ''analysis''),
                 ErrorReadingFile ''text.root'' DeserializationError,
                 ErrorReadingFile ''unweighted.root'' (KeyInFileError ''mcEventWeight'')]"
    by (simp add: read_failures_def example_files_def example_reads)
  show ?thesis
    using read_failure_skips_only_that_file
            [where flag = 1 and env = example_env and tn = "''analysis''"
               and bs = branches_to_read_mc and pattern = "''*.root''"]
    by (simp add: g f nb rf process_example frames_def example_row)
qed

text \<open>
  C10. The configured branch list asks for \<open>mcEventWeight\<close>. A file whose tree has no
  such branch fails to read with a key error, is reported and contributes no frame; and
  every batch that was read with the configured list, and every batch the cuts return
  for it, has the field \<open>mcEventWeight\<close>, so the default weight is never taken for it.
\<close>

theorem missing_weight_branch_skips_file:
  assumes "uproot_open fsys file_path tn = Inr t"
    and "''mcEventWeight'' \<notin> set (branch_names t)"
  shows "(\<exists>b. read_events fsys file_path tn branches_to_read_mc = Inl (KeyInFileError b)
            \<and> load_files fsys tn branches_to_read_mc flag (file_path # rest)
                = then_do (load_files fsys tn branches_to_read_mc flag rest)
                    (\<lambda>(out, df_list).
                       Inr (ErrorReadingFile file_path (KeyInFileError b) # out, df_list)))
         \<and> (\<forall>p evs evs'. read_events fsys p tn branches_to_read_mc = Inr evs
                \<longrightarrow> preselect evs = Inr evs'
                \<longrightarrow> ''mcEventWeight'' \<in> set (field_names evs'))"
proof -
  have "filter (\<lambda>b. b \<notin> set (branch_names t)) branches_to_read_mc \<noteq> []"
    using assms(2) by (auto simp: filter_empty_conv branches_to_read_mc_def)
  then obtain b bs' where "filter (\<lambda>b. b \<notin> set (branch_names t)) branches_to_read_mc = b # bs'"
    by (cases "filter (\<lambda>b. b \<notin> set (branch_names t)) branches_to_read_mc") auto
  then have rd: "read_events fsys file_path tn branches_to_read_mc = Inl (KeyInFileError b)"
    using assms(1) by (simp add: read_events_def tree_arrays_def)
  have "''mcEventWeight'' \<in> set (field_names evs')"
    if "read_events fsys p tn branches_to_read_mc = Inr evs" "preselect evs = Inr evs'"
    for p evs evs'
    using read_events_fields [OF that(1)] preselect_fields [OF that(2)]
    by (simp add: branches_to_read_mc_def)
  then show ?thesis using rd by auto
qed

theorem missing_weight_branch_skips_file_witness:
  "uproot_open example_fs ''unweighted.root'' ''analysis'' = Inr unweighted_tree
   \<and> ''mcEventWeight'' \<notin> set (branch_names unweighted_tree)
   \<and> read_events example_fs ''unweighted.root'' ''analysis'' branches_to_read_mc
       = Inl (KeyInFileError ''mcEventWeight'')
   \<and> load_files example_fs ''analysis'' branches_to_read_mc 1 [''unweighted.root'']
       = Inr ([ErrorReadingFile ''unweighted.root'' (KeyInFileError ''mcEventWeight'')], [])"
proof -
  have o: "uproot_open example_fs ''unweighted.root'' ''analysis'' = Inr unweighted_tree"
    by (simp add: uproot_open_def example_fs_def)
  have m: "''mcEventWeight'' \<notin> set (branch_names unweighted_tree)"
    by (simp add: unweighted_tree_def photon_branches_def)
  show ?thesis
    using o m missing_weight_branch_skips_file [OF o m, of 1 "[]"]
    by (auto simp: example_reads)
qed

section \<open>Runs without data and runs with missing features\<close>

lemma cell_define_empty:
  "df_empty (df_combined_mc nb) \<Longrightarrow>
   cell_define_X_y nb
     = Inr (print [CannotDefineXy] (nb\<lparr>X_df := empty_frame, y_series := [], weights_series := []\<rparr>))"
  by (simp add: cell_define_X_y_def)

lemma cell_split_empty:
  "df_empty (X_df nb) \<Longrightarrow>
   cell_split_scale env nb
     = Inr (print [SkippingSplit]
              (nb\<lparr>X_train_scaled := [], X_test_scaled := [], y_train := [], y_test := [],
                  w_train := [], w_test := []\<rparr>))"
  by (simp add: cell_split_scale_def)

lemma cell_train_empty:
  "X_train_scaled nb = [] \<Longrightarrow>
   cell_train env nb = Inr (print [SkippingTraining] (nb\<lparr>mlp_model := None\<rparr>))"
  by (simp add: cell_train_def array_size_def)

lemma cell_evaluate_none:
  "mlp_model nb = None \<Longrightarrow> cell_evaluate nb = Inr (print [SkippingEvaluation] nb)"
  by (simp add: cell_evaluate_def)

lemma cell_save_none:
  "mlp_model nb = None \<Longrightarrow> cell_save env nb = Inr (print [SkippingSaving] nb)"
  by (simp add: cell_save_def)

lemma skip_cascade:
  assumes "df_empty (X_df nb)"
  shows "then_do (cell_split_scale env nb) (\<lambda>nb6.
         then_do (cell_train env nb6) (\<lambda>nb7.
         then_do (cell_evaluate nb7) (\<lambda>nb8. cell_save env nb8)))
         = Inr (nb\<lparr>X_train_scaled := [], X_test_scaled := [], y_train := [], y_test := [],
                   w_train := [], w_test := [], mlp_model := None,
                   printed := printed nb @ [SkippingSplit, SkippingTraining, SkippingEvaluation,
                                            SkippingSaving]\<rparr>)"
  by (simp add: cell_split_empty [OF assms] cell_train_empty cell_evaluate_none cell_save_none
      print_def)

lemma df_empty_empty_frame: "df_empty empty_frame"
  by (simp add: df_empty_def empty_frame_def)

lemma nodata_loads:
  "load_and_preprocess_mc_for_mva nodata_env pat flag tree_name branches_to_read_mc
     = Inr ([ProcessingFiles 1 pat,
             ErrorReadingFile ''missing.root'' (FileNotFoundError ''missing.root'')],
            empty_frame)"
  by (simp add: load_and_preprocess_mc_for_mva_def nodata_env_def example_env_def
      read_events_def uproot_open_def example_fs_def)

text \<open>
  C4. When both loads return an empty table, the run reports the condition and every
  later cell is skipped by its own guard: nothing is split or scaled, no classifier is
  fitted and nothing is saved.
\<close>

theorem both_empty_no_training:
  assumes "load_and_preprocess_mc_for_mva env (mc_signal_hyy_file_pattern env) 1 tree_name
             branches_to_read_mc = Inr (out_s, df_s)"
    and "load_and_preprocess_mc_for_mva env (mc_background_hyy_file_pattern env) 0 tree_name
             branches_to_read_mc = Inr (out_b, df_b)"
    and "df_empty df_s" and "df_empty df_b"
  shows "\<exists>nb. run_all env = Inr nb
           \<and> printed nb = out_s @ [LoadedSignal (length (df_rows df_s))]
                @ out_b @ [LoadedBackground (length (df_rows df_b))]
                @ [ErrorBothEmpty, CannotDefineXy, SkippingSplit, SkippingTraining,
                   SkippingEvaluation, SkippingSaving]
           \<and> X_train_scaled nb = [] \<and> scaler nb = None \<and> mlp_model nb = None \<and> saved nb = []"
proof -
  define nb4 :: "'a notebook" where
    "nb4 = print [ErrorBothEmpty]
             ((print (out_s @ [LoadedSignal (length (df_rows df_s))]
                      @ out_b @ [LoadedBackground (length (df_rows df_b))])
                 (fresh_kernel\<lparr>df_signal_mc := df_s, df_background_mc := df_b\<rparr>))
              \<lparr>df_combined_mc := empty_frame\<rparr>)"
  define nb5 where
    "nb5 = print [CannotDefineXy] (nb4\<lparr>X_df := empty_frame, y_series := [], weights_series := []\<rparr>)"
  have c4: "cell_load env fresh_kernel = Inr nb4"
    using assms by (simp add: cell_load_def combine_def print_def nb4_def)
  have c5: "cell_define_X_y nb4 = Inr nb5"
    unfolding nb5_def by (rule cell_define_empty) (simp add: nb4_def print_def df_empty_empty_frame)
  have e: "df_empty (X_df nb5)" by (simp add: nb5_def print_def df_empty_empty_frame)
  have "run_all env = Inr (nb5\<lparr>X_train_scaled := [], X_test_scaled := [], y_train := [],
          y_test := [], w_train := [], w_test := [], mlp_model := None,
          printed := printed nb5 @ [SkippingSplit, SkippingTraining, SkippingEvaluation,
                                    SkippingSaving]\<rparr>)"
    by (simp add: run_all_def c4 run_from_combined_def c5 skip_cascade [OF e])
  then show ?thesis
    by (simp add: nb5_def nb4_def print_def fresh_kernel_def)
qed

theorem both_empty_no_training_witness:
  "df_empty empty_frame
   \<and> (\<exists>nb. run_all nodata_env = Inr nb
        \<and> printed nb =
            [ProcessingFiles 1 (mc_signal_hyy_file_pattern nodata_env),
             ErrorReadingFile ''missing.root'' (FileNotFoundError ''missing.root''),
             LoadedSignal 0,
             ProcessingFiles 1 (mc_background_hyy_file_pattern nodata_env),
             ErrorReadingFile ''missing.root'' (FileNotFoundError ''missing.root''),
             LoadedBackground 0,
             ErrorBothEmpty, CannotDefineXy, SkippingSplit, SkippingTraining,
             SkippingEvaluation, SkippingSaving]
        \<and> X_train_scaled nb = [] \<and> scaler nb = None \<and> mlp_model nb = None \<and> saved nb = [])"
proof -
  have e: "df_empty empty_frame" by (rule df_empty_empty_frame)
  have n: "length (df_rows empty_frame) = 0" by (simp add: empty_frame_def)
  show ?thesis
    using e both_empty_no_training [OF nodata_loads nodata_loads e e] by (simp add: n)
qed

text \<open>
  C5, as amended. For a non-empty assembled dataset that lacks a feature column, the
  run prints the missing feature names and the available columns, and then skips
  splitting, training, evaluation and saving.
\<close>

theorem missing_features_reported:
  assumes "\<not> df_empty (df_combined_mc nb)"
    and "missing_features (df_combined_mc nb) \<noteq> []"
  shows "\<exists>nb'. run_from_combined env nb = Inr nb'
           \<and> printed nb' = printed nb
                @ [ErrorMissingFeatures (filter (\<lambda>f. f \<notin> set (columns (df_combined_mc nb)))
                                               mva_features_list),
                   AvailableColumns (columns (df_combined_mc nb)),
                   SkippingSplit, SkippingTraining, SkippingEvaluation, SkippingSaving]
           \<and> mlp_model nb' = None \<and> scaler nb' = scaler nb \<and> saved nb' = saved nb"
proof -
  define nb5 where
    "nb5 = print [ErrorMissingFeatures (missing_features (df_combined_mc nb)),
                  AvailableColumns (columns (df_combined_mc nb))]
             (nb\<lparr>X_df := empty_frame, y_series := [], weights_series := []\<rparr>)"
  have c5: "cell_define_X_y nb = Inr nb5"
    using assms by (simp add: cell_define_X_y_def nb5_def)
  have e: "df_empty (X_df nb5)" by (simp add: nb5_def print_def df_empty_empty_frame)
  have "run_from_combined env nb = Inr (nb5\<lparr>X_train_scaled := [], X_test_scaled := [],
          y_train := [], y_test := [], w_train := [], w_test := [], mlp_model := None,
          printed := printed nb5 @ [SkippingSplit, SkippingTraining, SkippingEvaluation,
                                    SkippingSaving]\<rparr>)"
    by (simp add: run_from_combined_def c5 skip_cascade [OF e])
  then show ?thesis
    by (simp add: nb5_def print_def missing_features_def)
qed

theorem missing_features_reported_witness:
  "\<not> df_empty (df_combined_mc partial_nb)
   \<and> missing_features (df_combined_mc partial_nb)
       = [''ph2_pt_norm'', ''ph2_eta'', ''delta_eta_yy'', ''delta_phi_yy'', ''delta_R_yy'',
          ''ph1_ptcone20_norm'', ''ph2_ptcone20_norm'', ''cos_theta_cs_yy'']
   \<and> (\<exists>nb'. run_from_combined example_env partial_nb = Inr nb'
         \<and> printed nb' =
             [ErrorMissingFeatures
                [''ph2_pt_norm'', ''ph2_eta'', ''delta_eta_yy'', ''delta_phi_yy'', ''delta_R_yy'',
                 ''ph1_ptcone20_norm'', ''ph2_ptcone20_norm'', ''cos_theta_cs_yy''],
              AvailableColumns [''ph1_pt_norm'', ''ph1_eta'', ''eventWeight'', ''isSignal''],
              SkippingSplit, SkippingTraining, SkippingEvaluation, SkippingSaving]
         \<and> mlp_model nb' = None \<and> saved nb' = [])"
proof -
  have ne: "\<not> df_empty (df_combined_mc partial_nb)"
    by (simp add: partial_nb_def df_empty_def)
  have m: "missing_features (df_combined_mc partial_nb)
       = [''ph2_pt_norm'', ''ph2_eta'', ''delta_eta_yy'', ''delta_phi_yy'', ''delta_R_yy'',
          ''ph1_ptcone20_norm'', ''ph2_ptcone20_norm'', ''cos_theta_cs_yy'']"
    by (simp add: partial_nb_def missing_features_def mva_features_list_def)
  have m': "missing_features (df_combined_mc partial_nb) \<noteq> []" by (simp add: m)
  have c: "columns (df_combined_mc partial_nb)
             = [''ph1_pt_norm'', ''ph1_eta'', ''eventWeight'', ''isSignal'']"
    and p: "printed partial_nb = []" and s: "saved partial_nb = []"
    by (simp_all add: partial_nb_def fresh_kernel_def)
  show ?thesis
    using ne m missing_features_reported [OF ne m', of example_env]
    by (auto simp: c p s mva_features_list_def)
qed

text \<open>
  C5 as stated fails on the empty dataset that the assembler produces when no data
  was loaded: all ten feature names are absent from its columns, and the run reports
  that the dataset is empty without naming them.
\<close>

theorem empty_dataset_names_not_reported:
  "map_sum id (missing_features \<circ> df_combined_mc) (run_all nofiles_env) = Inr mva_features_list
   \<and> map_sum id printed (run_all nofiles_env) =
       Inr [NoFilesFound (mc_signal_hyy_file_pattern nofiles_env), LoadedSignal 0,
            NoFilesFound (mc_background_hyy_file_pattern nofiles_env), LoadedBackground 0,
            ErrorBothEmpty, CannotDefineXy, SkippingSplit, SkippingTraining,
            SkippingEvaluation, SkippingSaving]"
proof -
  have l: "load_and_preprocess_mc_for_mva nofiles_env pat flag tree_name branches_to_read_mc
             = Inr ([NoFilesFound pat], empty_frame)" for pat flag
    by (simp add: load_and_preprocess_mc_for_mva_def nofiles_env_def example_env_def)
  define nb4 :: "unit notebook" where
    "nb4 = print [ErrorBothEmpty]
             ((print ([NoFilesFound (mc_signal_hyy_file_pattern nofiles_env)] @ [LoadedSignal 0]
                      @ [NoFilesFound (mc_background_hyy_file_pattern nofiles_env)]
                      @ [LoadedBackground 0])
                 (fresh_kernel\<lparr>df_signal_mc := empty_frame, df_background_mc := empty_frame\<rparr>))
              \<lparr>df_combined_mc := empty_frame\<rparr>)"
  define nb5 where
    "nb5 = print [CannotDefineXy] (nb4\<lparr>X_df := empty_frame, y_series := [], weights_series := []\<rparr>)"
  have c4: "cell_load nofiles_env fresh_kernel = Inr nb4"
    by (simp add: cell_load_def l combine_def print_def nb4_def df_empty_empty_frame)
       (simp add: empty_frame_def)
  have c5: "cell_define_X_y nb4 = Inr nb5"
    unfolding nb5_def by (rule cell_define_empty) (simp add: nb4_def print_def df_empty_empty_frame)
  have e: "df_empty (X_df nb5)" by (simp add: nb5_def print_def df_empty_empty_frame)
  have "run_all nofiles_env = Inr (nb5\<lparr>X_train_scaled := [], X_test_scaled := [], y_train := [],
          y_test := [], w_train := [], w_test := [], mlp_model := None,
          printed := printed nb5 @ [SkippingSplit, SkippingTraining, SkippingEvaluation,
                                    SkippingSaving]\<rparr>)"
    by (simp add: run_all_def c4 run_from_combined_def c5 skip_cascade [OF e])
  then show ?thesis
    by (simp add: nb5_def nb4_def print_def fresh_kernel_def missing_features_def empty_frame_def)
qed

section \<open>Splitting and scaling\<close>

lemma cell_split_scale_Inr:
  assumes "\<not> df_empty (X_df nb)"
    and "train_test_split env (length (df_rows (X_df nb))) (stratify (y_series nb))
           = Inr (train, test)"
    and "scaler_fit (take_rows train (df_rows (X_df nb))) = Inr sc"
    and "scaler_transform sc (take_rows train (df_rows (X_df nb))) = Inr a"
    and "scaler_transform sc (take_rows test (df_rows (X_df nb))) = Inr b"
  shows "cell_split_scale env nb =
           Inr (nb\<lparr>X_train_scaled := a, X_test_scaled := b,
                   y_train := take_rows train (y_series nb),
                   y_test := take_rows test (y_series nb),
                   w_train := take_rows train (weights_series nb),
                   w_test := take_rows test (weights_series nb),
                   scaler := Some sc,
                   printed := printed nb @ [TrainingSetSize (length train),
                                           TestSetSize (length test), FeaturesScaled]\<rparr>)"
  using assms by (simp add: cell_split_scale_def print_def take_rows_def)

lemma cell_split_scale_InrD:
  assumes "\<not> df_empty (X_df nb)"
    and "train_test_split env (length (df_rows (X_df nb))) (stratify (y_series nb))
           = Inr (train, test)"
    and "cell_split_scale env nb = Inr r"
  shows "\<exists>sc. scaler_fit (take_rows train (df_rows (X_df nb))) = Inr sc
           \<and> scaler r = Some sc
           \<and> scaler_transform sc (take_rows train (df_rows (X_df nb))) = Inr (X_train_scaled r)
           \<and> scaler_transform sc (take_rows test (df_rows (X_df nb))) = Inr (X_test_scaled r)"
  using assms
  by (auto simp: cell_split_scale_def print_def then_do_Inr_iff Let_def)

lemma fit_row_a: "scaler_fit [row_a] = Inr scaler_a"
  by (simp add: scaler_fit_def check_array_def row_a_def scaler_a_def mean_def variance_def
      handle_zeros_in_scale_def)

lemma transform_row_a:
  "scaler_transform scaler_a [row_a] = Inr [[0, 0, 0, 0, 0, 0, 0, 0, 0, 0]]"
  by (simp add: scaler_transform_def check_array_def row_a_def scaler_a_def)

lemma transform_row_b:
  "scaler_transform scaler_a [row_b] = Inr [[1/2, 0, 1, 0, 1, - 1, - 1, 1/300, 0, 1/3]]"
  by (simp add: scaler_transform_def check_array_def row_b_def scaler_a_def)

lemma transform_row_c:
  "scaler_transform scaler_a [row_c] = Inr [[3/2, 1/2, 2, 1, 1, - 2, - 2, - (1/60), - (1/60), 1/2]]"
  by (simp add: scaler_transform_def check_array_def row_c_def scaler_a_def)

lemma example_split: "train_test_split example_env (Suc (Suc 0)) labels = Inr ([0], [1])"
  by (simp add: example_env_def)

lemma single_label_facts:
  "\<not> df_empty (X_df single_label_nb)"
  "df_rows (X_df single_label_nb) = [row_a, row_b]"
  "y_series single_label_nb = [Fin 1, Fin 1]"
  "weights_series single_label_nb = [Fin 2, Fin 2]"
  "printed single_label_nb = []"
  by (simp_all add: single_label_nb_def fresh_kernel_def df_empty_def mva_features_list_def)

lemma two_label_facts:
  "\<not> df_empty (X_df two_label_nb)"
  "df_rows (X_df two_label_nb) = [row_a, row_b]"
  "df_rows (X_df two_label_nb') = [row_a, row_c]"
  "columns (X_df two_label_nb') = columns (X_df two_label_nb)"
  "y_series two_label_nb = [Fin 1, Fin 0]"
  "y_series two_label_nb' = [Fin 1, Fin 0]"
  by (simp_all add: two_label_nb_def two_label_nb'_def single_label_nb_def fresh_kernel_def
      df_empty_def mva_features_list_def)

lemma nunique_single: "nunique (y_series single_label_nb) = 1"
  by (simp add: single_label_facts nunique_def)

text \<open>
  C3. The fitted transform depends on the training rows only. Take two datasets with
  the same columns, number of rows and labels, on which the split therefore chooses
  the same train and test positions, and which agree on every training row. If the
  split cell returns on both, the fitted scalers and the scaled training rows are
  equal, the scaler is the one fitted on the training rows, and each test partition
  is transformed with that scaler.
\<close>

theorem scaler_fitted_on_training_rows_only:
  assumes "columns (X_df nb') = columns (X_df nb)"
    and "length (df_rows (X_df nb')) = length (df_rows (X_df nb))"
    and "y_series nb' = y_series nb"
    and "\<not> df_empty (X_df nb)"
    and "train_test_split env (length (df_rows (X_df nb))) (stratify (y_series nb))
           = Inr (train, test)"
    and "\<forall>i \<in> set train. df_rows (X_df nb') ! i = df_rows (X_df nb) ! i"
    and "cell_split_scale env nb = Inr r"
    and "cell_split_scale env nb' = Inr r'"
  shows "scaler r' = scaler r \<and> X_train_scaled r' = X_train_scaled r
         \<and> (\<exists>sc. scaler r = Some sc
               \<and> scaler_fit (take_rows train (df_rows (X_df nb))) = Inr sc
               \<and> scaler_transform sc (take_rows test (df_rows (X_df nb))) = Inr (X_test_scaled r)
               \<and> scaler_transform sc (take_rows test (df_rows (X_df nb'))) = Inr (X_test_scaled r'))"
proof -
  have tr: "take_rows train (df_rows (X_df nb')) = take_rows train (df_rows (X_df nb))"
    using assms(6) by (simp add: take_rows_def)
  have ne: "\<not> df_empty (X_df nb')"
    using assms(1,2,4) by (auto simp: df_empty_def)
  have sp: "train_test_split env (length (df_rows (X_df nb'))) (stratify (y_series nb'))
              = Inr (train, test)"
    using assms(2,3,5) by simp
  from cell_split_scale_InrD [OF assms(4,5,7)] obtain sc where
    sc: "scaler_fit (take_rows train (df_rows (X_df nb))) = Inr sc" "scaler r = Some sc"
      "scaler_transform sc (take_rows train (df_rows (X_df nb))) = Inr (X_train_scaled r)"
      "scaler_transform sc (take_rows test (df_rows (X_df nb))) = Inr (X_test_scaled r)"
    by blast
  from cell_split_scale_InrD [OF ne sp assms(8)] obtain sc' where
    sc': "scaler_fit (take_rows train (df_rows (X_df nb'))) = Inr sc'" "scaler r' = Some sc'"
      "scaler_transform sc' (take_rows train (df_rows (X_df nb'))) = Inr (X_train_scaled r')"
      "scaler_transform sc' (take_rows test (df_rows (X_df nb'))) = Inr (X_test_scaled r')"
    by blast
  have eq: "sc' = sc" using sc(1) sc'(1) tr by simp
  show ?thesis using sc sc' eq tr by simp
qed

theorem scaler_fitted_on_training_rows_only_witness:
  "df_rows (X_df two_label_nb) ! 1 \<noteq> df_rows (X_df two_label_nb') ! 1
   \<and> (\<exists>r r'. cell_split_scale example_env two_label_nb = Inr r
         \<and> cell_split_scale example_env two_label_nb' = Inr r'
         \<and> scaler r = Some scaler_a \<and> scaler r' = Some scaler_a
         \<and> X_test_scaled r = [[1/2, 0, 1, 0, 1, - 1, - 1, 1/300, 0, 1/3]]
         \<and> X_test_scaled r' = [[3/2, 1/2, 2, 1, 1, - 2, - 2, - (1/60), - (1/60), 1/2]])"
proof -
  have sp: "train_test_split example_env (length (df_rows (X_df two_label_nb)))
              (stratify (y_series two_label_nb)) = Inr ([0], [1])"
    by (simp add: two_label_facts example_split)
  have sp': "train_test_split example_env (length (df_rows (X_df two_label_nb')))
              (stratify (y_series two_label_nb')) = Inr ([0], [1])"
    by (simp add: two_label_facts example_split)
  have ne': "\<not> df_empty (X_df two_label_nb')"
    by (simp add: two_label_nb'_def df_empty_def mva_features_list_def)
  have f: "scaler_fit (take_rows [0] (df_rows (X_df two_label_nb))) = Inr scaler_a"
    and f': "scaler_fit (take_rows [0] (df_rows (X_df two_label_nb'))) = Inr scaler_a"
    by (simp_all add: two_label_facts take_rows_def fit_row_a)
  have a: "scaler_transform scaler_a (take_rows [0] (df_rows (X_df two_label_nb)))
             = Inr [[0, 0, 0, 0, 0, 0, 0, 0, 0, 0]]"
    and a': "scaler_transform scaler_a (take_rows [0] (df_rows (X_df two_label_nb')))
             = Inr [[0, 0, 0, 0, 0, 0, 0, 0, 0, 0]]"
    by (simp_all add: two_label_facts take_rows_def transform_row_a)
  have b: "scaler_transform scaler_a (take_rows [1] (df_rows (X_df two_label_nb)))
             = Inr [[1/2, 0, 1, 0, 1, - 1, - 1, 1/300, 0, 1/3]]"
    by (simp add: two_label_facts take_rows_def transform_row_b)
  have b': "scaler_transform scaler_a (take_rows [1] (df_rows (X_df two_label_nb')))
             = Inr [[3/2, 1/2, 2, 1, 1, - 2, - 2, - (1/60), - (1/60), 1/2]]"
    by (simp add: two_label_facts take_rows_def transform_row_c)
  note r = cell_split_scale_Inr [OF two_label_facts(1) sp f a b]
  note r' = cell_split_scale_Inr [OF ne' sp' f' a' b']
  have agree: "\<forall>i \<in> set [0]. df_rows (X_df two_label_nb') ! i = df_rows (X_df two_label_nb) ! i"
    by (simp add: two_label_facts)
  have len: "length (df_rows (X_df two_label_nb')) = length (df_rows (X_df two_label_nb))"
    by (simp add: two_label_facts)
  have ys: "y_series two_label_nb' = y_series two_label_nb"
    by (simp add: two_label_facts)
  have differ: "df_rows (X_df two_label_nb) ! 1 \<noteq> df_rows (X_df two_label_nb') ! 1"
    by (simp add: two_label_facts row_b_def row_c_def)
  from scaler_fitted_on_training_rows_only
         [OF two_label_facts(4) len ys two_label_facts(1) sp agree r r']
  show ?thesis
    using differ r r' by (simp add: f b b' take_rows_def two_label_facts)
qed

text \<open>
  C6, as amended. When the label column has at most one distinct value the split cell
  passes no stratification labels to \<open>train_test_split\<close>; if that unstratified split
  and the scaling succeed, the cell binds the scaler and prints the two set sizes and
  that the features were scaled, as it does for a stratified split, and nothing else.
\<close>

theorem single_label_unstratified_split:
  assumes "nunique (y_series nb) \<le> 1"
    and "\<not> df_empty (X_df nb)"
    and "train_test_split env (length (df_rows (X_df nb))) None = Inr (train, test)"
    and "scaler_fit (take_rows train (df_rows (X_df nb))) = Inr sc"
    and "scaler_transform sc (take_rows train (df_rows (X_df nb))) = Inr a"
    and "scaler_transform sc (take_rows test (df_rows (X_df nb))) = Inr b"
  shows "stratify (y_series nb) = None
         \<and> cell_split_scale env nb =
             Inr (nb\<lparr>X_train_scaled := a, X_test_scaled := b,
                     y_train := take_rows train (y_series nb),
                     y_test := take_rows test (y_series nb),
                     w_train := take_rows train (weights_series nb),
                     w_test := take_rows test (weights_series nb),
                     scaler := Some sc,
                     printed := printed nb @ [TrainingSetSize (length train),
                                             TestSetSize (length test), FeaturesScaled]\<rparr>)"
proof -
  have s: "stratify (y_series nb) = None" using assms(1) by (simp add: stratify_def)
  show ?thesis
    using cell_split_scale_Inr [OF assms(2) _ assms(4,5,6), of env] assms(3) s by simp
qed

theorem single_label_unstratified_split_witness:
  "nunique (y_series single_label_nb) \<le> 1
   \<and> stratify (y_series single_label_nb) = None
   \<and> cell_split_scale example_env single_label_nb =
       Inr (single_label_nb\<lparr>X_train_scaled := [[0, 0, 0, 0, 0, 0, 0, 0, 0, 0]],
              X_test_scaled := [[1/2, 0, 1, 0, 1, - 1, - 1, 1/300, 0, 1/3]],
              y_train := [Fin 1], y_test := [Fin 1], w_train := [Fin 2], w_test := [Fin 2],
              scaler := Some scaler_a,
              printed := [TrainingSetSize 1, TestSetSize 1, FeaturesScaled]\<rparr>)"
proof -
  have n: "nunique (y_series single_label_nb) \<le> 1" by (simp add: nunique_single)
  have sp: "train_test_split example_env (length (df_rows (X_df single_label_nb))) None
              = Inr ([0], [1])"
    by (simp add: single_label_facts example_split)
  have f: "scaler_fit (take_rows [0] (df_rows (X_df single_label_nb))) = Inr scaler_a"
    by (simp add: single_label_facts take_rows_def fit_row_a)
  have a: "scaler_transform scaler_a (take_rows [0] (df_rows (X_df single_label_nb)))
             = Inr [[0, 0, 0, 0, 0, 0, 0, 0, 0, 0]]"
    by (simp add: single_label_facts take_rows_def transform_row_a)
  have b: "scaler_transform scaler_a (take_rows [1] (df_rows (X_df single_label_nb)))
             = Inr [[1/2, 0, 1, 0, 1, - 1, - 1, 1/300, 0, 1/3]]"
    by (simp add: single_label_facts take_rows_def transform_row_b)
  show ?thesis
    using n single_label_unstratified_split [OF n single_label_facts(1) sp f a b]
    by (simp add: single_label_facts take_rows_def)
qed

text \<open>
  C6 as stated fails: on a dataset of two signal rows the split cell neither raises
  nor prints a warning or an error; it splits without stratification and fits the
  scaler.
\<close>

theorem single_label_not_flagged:
  "nunique (y_series single_label_nb) = 1
   \<and> map_sum id printed (cell_split_scale example_env single_label_nb)
       = Inr [TrainingSetSize 1, TestSetSize 1, FeaturesScaled]
   \<and> map_sum id scaler (cell_split_scale example_env single_label_nb) = Inr (Some scaler_a)"
proof -
  have s: "stratify (y_series single_label_nb) = None"
    by (simp add: stratify_def nunique_single)
  have sp: "train_test_split example_env (length (df_rows (X_df single_label_nb)))
              (stratify (y_series single_label_nb)) = Inr ([0], [1])"
    by (simp add: single_label_facts example_split)
  have f: "scaler_fit (take_rows [0] (df_rows (X_df single_label_nb))) = Inr scaler_a"
    by (simp add: single_label_facts take_rows_def fit_row_a)
  have a: "scaler_transform scaler_a (take_rows [0] (df_rows (X_df single_label_nb)))
             = Inr [[0, 0, 0, 0, 0, 0, 0, 0, 0, 0]]"
    by (simp add: single_label_facts take_rows_def transform_row_a)
  have b: "scaler_transform scaler_a (take_rows [1] (df_rows (X_df single_label_nb)))
             = Inr [[1/2, 0, 1, 0, 1, - 1, - 1, 1/300, 0, 1/3]]"
    by (simp add: single_label_facts take_rows_def transform_row_b)
  show ?thesis
    using nunique_single
    by (simp add: cell_split_scale_Inr [OF single_label_facts(1) sp f a b] single_label_facts)
qed

end
